theory Spec2Isabelle
  imports Complex_Main "HOL-Library.Log_Nat"
begin

section \<open>Wire data (network/MessageTypes.ts)\<close>

text \<open>
  JavaScript numbers are modelled as integers: the synchronisation code only copies
  them and tests them for truthiness, where \<open>0\<close> is the falsy number of the model
  (\<open>NaN\<close> is outside it).  Field names carry the name of their interface as a prefix,
  because several interfaces share \<open>x\<close>, \<open>y\<close> and \<open>score\<close>.
\<close>

record InputState =
  input_left :: bool
  input_right :: bool
  input_shoot :: bool

record PlayerState =
  ps_x :: int
  ps_y :: int
  ps_score :: int
  ps_lives :: int

record BubbleState =
  bs_x :: int
  bs_y :: int
  bs_radius :: int
  bs_dx :: int
  bs_dy :: int

record ArrowState =
  as_x :: int
  as_y :: int
  as_isActive :: bool

text \<open>
  A snapshot as \<open>applyGameState\<close> may be given it: a full \<open>GameState\<close>, or the
  \<open>Partial<GameState>\<close> that \<open>createDelta\<close> returns, in which a player record or a
  scalar that did not change is left out and the two collections are always present.
  \<open>None\<close> is the absent (\<open>undefined\<close>) property: \<open>applyGameState\<close> tests
  \<open>state.player1\<close> and \<open>state.player2\<close> for truthiness and copies the three scalars
  as it finds them.
\<close>

record GameState =
  gs_player1 :: "PlayerState option"
  gs_player2 :: "PlayerState option"
  gs_bubbles :: "BubbleState list"
  gs_arrows :: "ArrowState list"
  gs_score :: "int option"
  gs_timeRemaining :: "int option"
  gs_level :: "int option"

section \<open>The simulation as the synchronisation code reads and writes it\<close>

datatype Movement = LEFT | RIGHT | STATIONARY

record Arrow =
  arrow_x :: int
  arrow_y :: int
  arrow_isActive :: bool
  arrow_isHittable :: bool

record Player =
  player_x :: int
  player_y :: int
  player_score :: int
  player_lives :: int
  player_movement :: Movement
  player_tempMovement :: Movement
  player_arrow :: "Arrow option"

record Bubble =
  bubble_x :: int
  bubble_y :: int
  bubble_radius :: int
  bubble_dx :: int
  bubble_dy :: int

record Score =
  score_score :: "int option"

text \<open>
  \<open>gm_players\<close> and \<open>gm_bubbleArray\<close> are lists: the code reads
  \<open>gameManager.players || []\<close> and \<open>gameManager.bubbleArray || []\<close>, so an absent
  array behaves as the empty one.  A seat \<open>players[i]\<close> is \<open>undefined\<close> exactly when
  \<open>i\<close> is not an index of the list.  \<open>gm_score\<close> is the optional \<open>score\<close> object
  (\<open>gameManager.score?.score\<close>, \<open>if (gameManager.score)\<close>).  The score it holds, the
  time remaining and the level are numbers or \<open>undefined\<close> (\<open>None\<close>), which is what
  \<open>applyGameState\<close> writes from a snapshot that leaves the scalar out.
\<close>

record Simulation =
  gm_players :: "Player list"
  gm_bubbleArray :: "Bubble list"
  gm_score :: "Score option"
  gm_timeRemaining :: "int option"
  gm_currentLevel :: "int option"

definition seat :: "Player list \<Rightarrow> nat \<Rightarrow> Player option" where
  "seat players i = (if i < length players then Some (players ! i) else None)"

definition js_or :: "int \<Rightarrow> int \<Rightarrow> int" where
  \<comment> \<open>\<open>v || d\<close> on numbers: the default replaces a falsy value.\<close>
  "js_or v d = (if v = 0 then d else v)"

definition js_or_undefined :: "int option \<Rightarrow> int \<Rightarrow> int" where
  \<comment> \<open>\<open>v || d\<close> on a number or \<open>undefined\<close>\<close>
  "js_or_undefined v d = (case v of None \<Rightarrow> d | Some n \<Rightarrow> js_or n d)"

definition arrow_active :: "Player \<Rightarrow> bool" where
  \<comment> \<open>\<open>player.arrow && player.arrow.isActive\<close>\<close>
  "arrow_active player =
     (case player_arrow player of None \<Rightarrow> False | Some a \<Rightarrow> arrow_isActive a)"

section \<open>GameStateSync (network/GameStateSync.ts)\<close>

text \<open>
  The class as \<open>GameStateSync.ts\<close> has it.  A later variant of the class reads
  \<open>posX\<close>, \<open>posY\<close> and \<open>life\<close> for \<open>x\<close>, \<open>y\<close> and \<open>lives\<close>, keeps the bubbles
  in a collection of the simulation's class, builds \<open>Bubble\<close> objects for them and
  reads the level from \<open>level\<close>; its treatment of seats and projectiles is the one
  modelled here.
\<close>

definition serializePlayer :: "Player option \<Rightarrow> PlayerState" where
  "serializePlayer player =
     (case player of
        None \<Rightarrow> \<lparr>ps_x = 0, ps_y = 0, ps_score = 0, ps_lives = 0\<rparr>
      | Some p \<Rightarrow>
          \<lparr>ps_x = js_or (player_x p) 0, ps_y = js_or (player_y p) 0,
           ps_score = js_or (player_score p) 0, ps_lives = js_or (player_lives p) 3\<rparr>)"

definition serializeBubble :: "Bubble \<Rightarrow> BubbleState" where
  "serializeBubble bubble =
     \<lparr>bs_x = js_or (bubble_x bubble) 0, bs_y = js_or (bubble_y bubble) 0,
      bs_radius = js_or (bubble_radius bubble) 0,
      bs_dx = js_or (bubble_dx bubble) 0, bs_dy = js_or (bubble_dy bubble) 0\<rparr>"

definition serializeBubbles :: "Bubble list \<Rightarrow> BubbleState list" where
  "serializeBubbles bubbles = map serializeBubble bubbles"

fun serializeArrows_forEach :: "Player list \<Rightarrow> ArrowState list \<Rightarrow> ArrowState list" where
  "serializeArrows_forEach [] arrows = arrows"
| "serializeArrows_forEach (player # rest) arrows =
     serializeArrows_forEach rest
       (case player_arrow player of
          None \<Rightarrow> arrows
        | Some a \<Rightarrow>
            if arrow_isActive a
            then arrows @ [\<lparr>as_x = js_or (arrow_x a) 0, as_y = js_or (arrow_y a) 0,
                            as_isActive = True\<rparr>]
            else arrows)"

definition serializeArrows :: "Simulation \<Rightarrow> ArrowState list" where
  "serializeArrows gameManager = serializeArrows_forEach (gm_players gameManager) []"

definition serializeGameState :: "Simulation \<Rightarrow> GameState" where
  "serializeGameState gameManager =
     (let players = gm_players gameManager in
      \<lparr>gs_player1 = Some (serializePlayer (seat players 0)),
       gs_player2 = Some (serializePlayer (seat players 1)),
       gs_bubbles = serializeBubbles (gm_bubbleArray gameManager),
       gs_arrows = serializeArrows gameManager,
       gs_score =
         Some (case gm_score gameManager of
                 None \<Rightarrow> 0
               | Some sc \<Rightarrow> js_or_undefined (score_score sc) 0),
       gs_timeRemaining = Some (js_or_undefined (gm_timeRemaining gameManager) 0),
       gs_level = Some (js_or_undefined (gm_currentLevel gameManager) 1)\<rparr>)"

definition applyPlayerState :: "Player \<Rightarrow> PlayerState \<Rightarrow> Player" where
  "applyPlayerState player state =
     player\<lparr>player_x := ps_x state, player_y := ps_y state,
            player_score := ps_score state, player_lives := ps_lives state\<rparr>"

definition applySeat :: "nat \<Rightarrow> PlayerState option \<Rightarrow> Player list \<Rightarrow> Player list" where
  \<comment> \<open>\<open>if (players[i] && state.playerN) applyPlayerState(players[i], state.playerN)\<close>\<close>
  "applySeat i state players =
     (case (seat players i, state) of
        (Some p, Some st) \<Rightarrow> players[i := applyPlayerState p st]
      | _ \<Rightarrow> players)"

fun applyBubbles_forEach :: "BubbleState list \<Rightarrow> Bubble list \<Rightarrow> Bubble list" where
  "applyBubbles_forEach [] bubbleArray = bubbleArray"
| "applyBubbles_forEach (bubbleState # rest) bubbleArray =
     applyBubbles_forEach rest
       (bubbleArray @ [\<lparr>bubble_x = bs_x bubbleState, bubble_y = bs_y bubbleState,
                         bubble_radius = bs_radius bubbleState,
                         bubble_dx = bs_dx bubbleState, bubble_dy = bs_dy bubbleState\<rparr>])"

definition applyBubbles :: "Simulation \<Rightarrow> BubbleState list \<Rightarrow> Simulation" where
  "applyBubbles gameManager bubbles =
     gameManager\<lparr>gm_bubbleArray := applyBubbles_forEach bubbles []\<rparr>"

definition resetArrow :: "Player \<Rightarrow> Player" where
  \<comment> \<open>\<open>if (player.arrow) player.arrow.isActive = false\<close>\<close>
  "resetArrow player =
     (case player_arrow player of
        None \<Rightarrow> player
      | Some a \<Rightarrow> player\<lparr>player_arrow := Some (a\<lparr>arrow_isActive := False\<rparr>)\<rparr>)"

definition placeArrow :: "ArrowState \<Rightarrow> nat \<Rightarrow> Player list \<Rightarrow> Player list" where
  \<comment> \<open>the body of the second \<open>forEach\<close> of \<open>applyArrows\<close>\<close>
  "placeArrow arrowState index players =
     (if index < length players
      then (case player_arrow (players ! index) of
              None \<Rightarrow> players
            | Some a \<Rightarrow>
                players[index := (players ! index)
                  \<lparr>player_arrow := Some (a\<lparr>arrow_x := as_x arrowState, arrow_y := as_y arrowState,
                                           arrow_isActive := as_isActive arrowState\<rparr>)\<rparr>])
      else players)"

fun applyArrows_forEach :: "ArrowState list \<Rightarrow> nat \<Rightarrow> Player list \<Rightarrow> Player list" where
  "applyArrows_forEach [] index players = players"
| "applyArrows_forEach (arrowState # rest) index players =
     applyArrows_forEach rest (Suc index) (placeArrow arrowState index players)"

definition applyArrows :: "Simulation \<Rightarrow> ArrowState list \<Rightarrow> Simulation" where
  "applyArrows gameManager arrows =
     gameManager\<lparr>gm_players :=
       applyArrows_forEach arrows 0 (map resetArrow (gm_players gameManager))\<rparr>"

definition applyScore :: "Simulation \<Rightarrow> int option \<Rightarrow> Simulation" where
  \<comment> \<open>\<open>if (gameManager.score) gameManager.score.score = state.score\<close>\<close>
  "applyScore gameManager v =
     (case gm_score gameManager of
        None \<Rightarrow> gameManager
      | Some sc \<Rightarrow> gameManager\<lparr>gm_score := Some (sc\<lparr>score_score := v\<rparr>)\<rparr>)"

definition applyGameState :: "Simulation \<Rightarrow> GameState \<Rightarrow> Simulation" where
  "applyGameState gameManager state =
     (let gm1 = gameManager\<lparr>gm_players :=
                  applySeat 1 (gs_player2 state)
                    (applySeat 0 (gs_player1 state) (gm_players gameManager))\<rparr>;
          gm2 = applyBubbles gm1 (gs_bubbles state);
          gm3 = applyArrows gm2 (gs_arrows state);
          gm4 = applyScore gm3 (gs_score state)
      in gm4\<lparr>gm_timeRemaining := gs_timeRemaining state, gm_currentLevel := gs_level state\<rparr>)"

text \<open>The snapshot of Scenario B: seat 0 only, no bubbles, no arrows.\<close>

definition scenario_B :: GameState where
  "scenario_B =
     \<lparr>gs_player1 = Some \<lparr>ps_x = 100, ps_y = 200, ps_score = 5, ps_lives = 2\<rparr>,
      gs_player2 = None, gs_bubbles = [], gs_arrows = [],
      gs_score = Some 5, gs_timeRemaining = Some 12000, gs_level = Some 2\<rparr>"

text \<open>
  A state of the host's simulation: both seats have a projectile record, the host's
  (seat 0) is idle and the guest's (seat 1) is in flight at \<open>(7, 9)\<close>.
\<close>

definition guest_shot :: Simulation where
  "guest_shot =
     \<lparr>gm_players =
        [\<lparr>player_x = 10, player_y = 20, player_score = 0, player_lives = 3,
          player_movement = STATIONARY, player_tempMovement = STATIONARY,
          player_arrow = Some \<lparr>arrow_x = 0, arrow_y = 0, arrow_isActive = False,
                                arrow_isHittable = False\<rparr>\<rparr>,
         \<lparr>player_x = 30, player_y = 20, player_score = 0, player_lives = 3,
          player_movement = STATIONARY, player_tempMovement = STATIONARY,
          player_arrow = Some \<lparr>arrow_x = 7, arrow_y = 9, arrow_isActive = True,
                                arrow_isHittable = True\<rparr>\<rparr>],
      gm_bubbleArray = [], gm_score = Some \<lparr>score_score = Some 0\<rparr>,
      gm_timeRemaining = Some 40000, gm_currentLevel = Some 1\<rparr>"

text \<open>
  What a peer observes of a seat and of a bubble: the four fields of its record that a
  snapshot carries, and the object \<open>applyBubbles\<close> builds for an entry.
\<close>

definition seat_record :: "Player \<Rightarrow> PlayerState" where
  "seat_record p =
     \<lparr>ps_x = player_x p, ps_y = player_y p, ps_score = player_score p, ps_lives = player_lives p\<rparr>"

definition bubble_of :: "BubbleState \<Rightarrow> Bubble" where
  "bubble_of b =
     \<lparr>bubble_x = bs_x b, bubble_y = bs_y b, bubble_radius = bs_radius b,
      bubble_dx = bs_dx b, bubble_dy = bs_dy b\<rparr>"

text \<open>
  A delta between two ticks in which neither player, nor the score, nor the level
  changed: the collections and the time remaining only.
\<close>

definition delta_only_bubbles :: GameState where
  "delta_only_bubbles =
     \<lparr>gs_player1 = None, gs_player2 = None,
      gs_bubbles = [\<lparr>bs_x = 50, bs_y = 60, bs_radius = 8, bs_dx = 1, bs_dy = -2\<rparr>],
      gs_arrows = [\<lparr>as_x = 11, as_y = 12, as_isActive = True\<rparr>],
      gs_score = None, gs_timeRemaining = Some 39000, gs_level = None\<rparr>"

section \<open>Messages and their validation (network/MessageTypes.ts)\<close>

datatype NetworkMessage =
    InputMessage InputState int
  | StateUpdateMessage GameState int
  | SyncMessage int
  | GameOverMessage bool int int
  | PlayerReadyMessage string int
  | StartGameMessage int

text \<open>
  \<open>validateMessage\<close> takes \<open>any\<close>: the values a peer can deliver.  An object is its
  list of properties (the first entry of a name is the property); numbers are integers
  as above, so every number but \<open>0\<close> is truthy.
\<close>

datatype jsval =
    JUndefined
  | JNull
  | JBool bool
  | JNum int
  | JStr string
  | JArr "jsval list"
  | JObj "(string \<times> jsval) list"

datatype jstype = Type_undefined | Type_object | Type_boolean | Type_number | Type_string

datatype js_error = TypeError | TransportError

fun typeof :: "jsval \<Rightarrow> jstype" where
  "typeof JUndefined = Type_undefined"
| "typeof JNull = Type_object"
| "typeof (JBool b) = Type_boolean"
| "typeof (JNum n) = Type_number"
| "typeof (JStr s) = Type_string"
| "typeof (JArr xs) = Type_object"
| "typeof (JObj fs) = Type_object"

fun truthy :: "jsval \<Rightarrow> bool" where
  "truthy JUndefined = False"
| "truthy JNull = False"
| "truthy (JBool b) = b"
| "truthy (JNum n) = (n \<noteq> 0)"
| "truthy (JStr s) = (s \<noteq> [])"
| "truthy (JArr xs) = True"
| "truthy (JObj fs) = True"

fun getProp :: "jsval \<Rightarrow> string \<Rightarrow> js_error + jsval" where
  \<comment> \<open>\<open>v.name\<close>: a TypeError on \<open>undefined\<close> and \<open>null\<close>, \<open>undefined\<close> for a name the
     value does not have\<close>
  "getProp JUndefined name = Inl TypeError"
| "getProp JNull name = Inl TypeError"
| "getProp (JObj fs) name = Inr (case map_of fs name of None \<Rightarrow> JUndefined | Some v \<Rightarrow> v)"
| "getProp (JArr xs) name = Inr (if name = ''length'' then JNum (int (length xs)) else JUndefined)"
| "getProp (JStr s) name = Inr (if name = ''length'' then JNum (int (length s)) else JUndefined)"
| "getProp (JBool b) name = Inr JUndefined"
| "getProp (JNum n) name = Inr JUndefined"

definition MessageType_values :: "jsval list" where
  \<comment> \<open>\<open>Object.values(MessageType)\<close>\<close>
  "MessageType_values =
     [JStr ''INPUT'', JStr ''STATE_UPDATE'', JStr ''SYNC'', JStr ''GAME_OVER'',
      JStr ''PLAYER_READY'', JStr ''START_GAME'']"

definition validateInput :: "jsval \<Rightarrow> js_error + jsval" where
  \<comment> \<open>\<open>msg.data && typeof msg.data.left === 'boolean' && ... right ... && ... shoot ...\<close>\<close>
  "validateInput msg =
     (case getProp msg ''data'' of Inl e \<Rightarrow> Inl e | Inr d \<Rightarrow>
        if \<not> truthy d then Inr d
        else (case getProp d ''left'' of Inl e \<Rightarrow> Inl e | Inr l \<Rightarrow>
          if typeof l \<noteq> Type_boolean then Inr (JBool False)
          else (case getProp d ''right'' of Inl e \<Rightarrow> Inl e | Inr r \<Rightarrow>
            if typeof r \<noteq> Type_boolean then Inr (JBool False)
            else (case getProp d ''shoot'' of Inl e \<Rightarrow> Inl e | Inr s \<Rightarrow>
              Inr (JBool (typeof s = Type_boolean))))))"

definition validateStateUpdate :: "jsval \<Rightarrow> js_error + jsval" where
  \<comment> \<open>\<open>msg.data && typeof msg.data === 'object'\<close>\<close>
  "validateStateUpdate msg =
     (case getProp msg ''data'' of Inl e \<Rightarrow> Inl e | Inr d \<Rightarrow>
        if \<not> truthy d then Inr d else Inr (JBool (typeof d = Type_object)))"

definition validateGameOver :: "jsval \<Rightarrow> js_error + jsval" where
  \<comment> \<open>\<open>typeof msg.won === 'boolean' && typeof msg.finalScore === 'number'\<close>\<close>
  "validateGameOver msg =
     (case getProp msg ''won'' of Inl e \<Rightarrow> Inl e | Inr w \<Rightarrow>
        if typeof w \<noteq> Type_boolean then Inr (JBool False)
        else (case getProp msg ''finalScore'' of Inl e \<Rightarrow> Inl e | Inr f \<Rightarrow>
          Inr (JBool (typeof f = Type_number))))"

definition validatePlayerReady :: "jsval \<Rightarrow> js_error + jsval" where
  \<comment> \<open>\<open>typeof msg.playerName === 'string'\<close>\<close>
  "validatePlayerReady msg =
     (case getProp msg ''playerName'' of Inl e \<Rightarrow> Inl e | Inr n \<Rightarrow>
        Inr (JBool (typeof n = Type_string)))"

definition validateMessage :: "jsval \<Rightarrow> js_error + jsval" where
  "validateMessage msg =
     (if \<not> truthy msg \<or> typeof msg \<noteq> Type_object then Inr (JBool False)
      else (case getProp msg ''type'' of Inl e \<Rightarrow> Inl e | Inr ty \<Rightarrow>
        if \<not> truthy ty \<or> ty \<notin> set MessageType_values then Inr (JBool False)
        else (case getProp msg ''timestamp'' of Inl e \<Rightarrow> Inl e | Inr ts \<Rightarrow>
          if typeof ts \<noteq> Type_number then Inr (JBool False)
          else if ty = JStr ''INPUT'' then validateInput msg
          else if ty = JStr ''STATE_UPDATE'' then validateStateUpdate msg
          else if ty = JStr ''SYNC'' then Inr (JBool True)
          else if ty = JStr ''GAME_OVER'' then validateGameOver msg
          else if ty = JStr ''PLAYER_READY'' then validatePlayerReady msg
          else if ty = JStr ''START_GAME'' then Inr (JBool True)
          else Inr (JBool False))))"

definition accepted :: "jsval \<Rightarrow> bool" where
  \<comment> \<open>\<open>if (validateMessage(message))\<close>: the call returns, and returns a truthy value\<close>
  "accepted msg = (case validateMessage msg of Inl e \<Rightarrow> False | Inr r \<Rightarrow> truthy r)"

text \<open>The object a message of each interface is, as the senders build it.\<close>

definition js_PlayerState :: "PlayerState \<Rightarrow> jsval" where
  "js_PlayerState p =
     JObj [(''x'', JNum (ps_x p)), (''y'', JNum (ps_y p)),
           (''score'', JNum (ps_score p)), (''lives'', JNum (ps_lives p))]"

definition js_BubbleState :: "BubbleState \<Rightarrow> jsval" where
  "js_BubbleState b =
     JObj [(''x'', JNum (bs_x b)), (''y'', JNum (bs_y b)), (''radius'', JNum (bs_radius b)),
           (''dx'', JNum (bs_dx b)), (''dy'', JNum (bs_dy b))]"

definition js_ArrowState :: "ArrowState \<Rightarrow> jsval" where
  "js_ArrowState a =
     JObj [(''x'', JNum (as_x a)), (''y'', JNum (as_y a)), (''isActive'', JBool (as_isActive a))]"

definition js_GameState :: "GameState \<Rightarrow> jsval" where
  "js_GameState st =
     JObj ((case gs_player1 st of None \<Rightarrow> [] | Some p \<Rightarrow> [(''player1'', js_PlayerState p)]) @
           (case gs_player2 st of None \<Rightarrow> [] | Some p \<Rightarrow> [(''player2'', js_PlayerState p)]) @
           [(''bubbles'', JArr (map js_BubbleState (gs_bubbles st))),
            (''arrows'', JArr (map js_ArrowState (gs_arrows st)))] @
           (case gs_score st of None \<Rightarrow> [] | Some n \<Rightarrow> [(''score'', JNum n)]) @
           (case gs_timeRemaining st of None \<Rightarrow> [] | Some n \<Rightarrow> [(''timeRemaining'', JNum n)]) @
           (case gs_level st of None \<Rightarrow> [] | Some n \<Rightarrow> [(''level'', JNum n)]))"

fun js_message :: "NetworkMessage \<Rightarrow> jsval" where
  "js_message (InputMessage d ts) =
     JObj [(''type'', JStr ''INPUT''),
           (''data'', JObj [(''left'', JBool (input_left d)), (''right'', JBool (input_right d)),
                            (''shoot'', JBool (input_shoot d))]),
           (''timestamp'', JNum ts)]"
| "js_message (StateUpdateMessage st ts) =
     JObj [(''type'', JStr ''STATE_UPDATE''), (''data'', js_GameState st), (''timestamp'', JNum ts)]"
| "js_message (SyncMessage ts) = JObj [(''type'', JStr ''SYNC''), (''timestamp'', JNum ts)]"
| "js_message (GameOverMessage won finalScore ts) =
     JObj [(''type'', JStr ''GAME_OVER''), (''won'', JBool won), (''finalScore'', JNum finalScore),
           (''timestamp'', JNum ts)]"
| "js_message (PlayerReadyMessage playerName ts) =
     JObj [(''type'', JStr ''PLAYER_READY''), (''playerName'', JStr playerName),
           (''timestamp'', JNum ts)]"
| "js_message (StartGameMessage ts) = JObj [(''type'', JStr ''START_GAME''), (''timestamp'', JNum ts)]"

text \<open>
  The contract of the validator in the words of the specification: a recognised-type
  tagged object with a numeric timestamp whose required fields, for its declared type,
  are present and of the right type.  \<open>field\<close> reads a property where there is one.
\<close>

definition field :: "jsval \<Rightarrow> string \<Rightarrow> jsval" where
  "field v name = (case v of JObj fs \<Rightarrow> (case map_of fs name of None \<Rightarrow> JUndefined | Some w \<Rightarrow> w)
                   | _ \<Rightarrow> JUndefined)"

definition is_object :: "jsval \<Rightarrow> bool" where
  "is_object v = (case v of JObj fs \<Rightarrow> True | JArr xs \<Rightarrow> True | _ \<Rightarrow> False)"

definition well_formed :: "jsval \<Rightarrow> bool" where
  "well_formed v =
     (is_object v \<and>
      field v ''type'' \<in> set MessageType_values \<and>
      typeof (field v ''timestamp'') = Type_number \<and>
      (field v ''type'' = JStr ''INPUT'' \<longrightarrow>
         typeof (field (field v ''data'') ''left'') = Type_boolean \<and>
         typeof (field (field v ''data'') ''right'') = Type_boolean \<and>
         typeof (field (field v ''data'') ''shoot'') = Type_boolean) \<and>
      (field v ''type'' = JStr ''STATE_UPDATE'' \<longrightarrow> is_object (field v ''data'')) \<and>
      (field v ''type'' = JStr ''GAME_OVER'' \<longrightarrow>
         typeof (field v ''won'') = Type_boolean \<and>
         typeof (field v ''finalScore'') = Type_number) \<and>
      (field v ''type'' = JStr ''PLAYER_READY'' \<longrightarrow>
         typeof (field v ''playerName'') = Type_string))"

text \<open>Scenario C: \<open>{type: "INPUT", data: {left: "yes"}}\<close>.\<close>

definition scenario_C :: jsval where
  "scenario_C = JObj [(''type'', JStr ''INPUT''), (''data'', JObj [(''left'', JStr ''yes'')])]"

section \<open>NetworkManager (network/NetworkManager.ts)\<close>

text \<open>
  The room code is drawn with \<open>Math.floor(Math.random() * chars.length)\<close>, a product of
  IEEE 754 doubles that is rounded before the floor is taken.  A finite double that is
  not negative is \<open>m \<times> 2 ^ e\<close> with a significand \<open>m\<close> below \<open>2 ^ 53\<close> and an
  exponent \<open>e\<close> from \<open>-1074\<close>; the product with an integer is computed exactly and
  rounded to nearest, ties to even.  (The products here are below \<open>chars.length\<close>, far
  from overflow.)
\<close>

record double =
  significand :: nat
  exponent :: int

definition is_double :: "double \<Rightarrow> bool" where
  \<comment> \<open>53 bits of significand, exponents from the smallest subnormal to the largest finite\<close>
  "is_double d = (significand d < 2 ^ 53 \<and> - 1074 \<le> exponent d \<and> exponent d \<le> 971)"

definition double_value :: "double \<Rightarrow> real" where
  "double_value d = real (significand d) * 2 powr real_of_int (exponent d)"

definition below_one :: "double \<Rightarrow> bool" where
  \<comment> \<open>the value is less than \<open>1\<close>\<close>
  "below_one d =
     (significand d = 0 \<or> (exponent d < 0 \<and> significand d < 2 ^ nat (- exponent d)))"

definition round_to_53 :: "nat \<Rightarrow> nat \<times> nat" where
  \<comment> \<open>\<open>p\<close> as \<open>q \<times> 2 ^ s\<close> with \<open>q\<close> of 53 bits: the \<open>s\<close> low bits of a longer \<open>p\<close> are
     rounded away, to the nearest \<open>q\<close>, to the even one of two equally near; a carry out of
     the 53 bits moves to the exponent\<close>
  "round_to_53 p =
     (let s = nat (bitlen (int p) - 53);
          q = p div 2 ^ s;
          r = p mod 2 ^ s;
          q' = (if 0 < s \<and> (2 ^ (s - 1) < r \<or> (r = 2 ^ (s - 1) \<and> odd q)) then q + 1 else q)
      in if q' = 2 ^ 53 then (2 ^ 52, s + 1) else (q', s))"

definition double_times :: "double \<Rightarrow> nat \<Rightarrow> double" where
  \<comment> \<open>\<open>d * n\<close> for an integer \<open>n\<close>: the exact product, rounded; the exponent does not
     fall, so the result is never rounded as a subnormal\<close>
  "double_times d n =
     (case round_to_53 (significand d * n) of
        (q, s) \<Rightarrow> \<lparr>significand = q, exponent = exponent d + int s\<rparr>)"

definition double_floor :: "double \<Rightarrow> int" where
  \<comment> \<open>\<open>Math.floor\<close>\<close>
  "double_floor d =
     (if 0 \<le> exponent d then int (significand d) * 2 ^ nat (exponent d)
      else int (significand d div 2 ^ nat (- exponent d)))"

text \<open>
  Three draws: \<open>0\<close>, \<open>1/2\<close>, and one whose product with 36 lies just below 35 and is
  rounded up to it.
\<close>

definition double_zero :: double where
  "double_zero = \<lparr>significand = 0, exponent = 0\<rparr>"

definition double_half :: double where
  "double_half = \<lparr>significand = 1, exponent = - 1\<rparr>"

definition double_carry :: double where
  "double_carry = \<lparr>significand = 8756999275442631, exponent = - 53\<rparr>"

text \<open>
  The room code a guest types is any JavaScript string: a list of code points.  Its
  upper-case form is fixed here where the claims need it: the 26 ASCII letters have the
  capitals, no other ASCII character changes, and U+0138 (LATIN SMALL LETTER KRA), a
  lower-case letter without a capital, stays as it is.  The upper-case form of every
  other code point is the platform's (Unicode's table, not among the sources): an
  input of the model.
\<close>

type_synonym jsstring = "nat list"

definition js_string :: "string \<Rightarrow> jsstring" where
  "js_string s = map of_char s"

definition latin_small_letter_kra :: nat where
  "latin_small_letter_kra = 312"

definition toUpperCase :: "(nat \<Rightarrow> nat list) \<Rightarrow> jsstring \<Rightarrow> jsstring" where
  "toUpperCase table s =
     concat (map (\<lambda>c. if 97 \<le> c \<and> c \<le> 122 then [c - 32]
                       else if c < 128 \<or> c = latin_small_letter_kra then [c]
                       else table c) s)"


text \<open>
  What the program cannot decide is an input of the model: the clock, the values of
  \<open>Math.random()\<close> in the order of the calls, the platform's table of upper-case
  forms, whether \<open>new Peer(...)\<close> raises and whether the transport's
  \<open>connection.send\<close> raises.
\<close>

record Env =
  env_now :: int
  env_random :: "nat \<Rightarrow> double"
  env_upperCase :: "nat \<Rightarrow> nat list"
  env_peerThrows :: bool
  env_sendThrows :: bool

datatype ConnectionStatus = Status_disconnected | Status_connecting | Status_connected | Status_error

datatype console_entry = Console_warn string | Console_error string

record DataConnection =
  conn_peer :: jsstring
  conn_open :: bool

record Peer =
  peer_id :: "jsstring option"

text \<open>
  \<open>nm_transmitted\<close> is the trace of the messages handed to the transport
  (\<open>connection.send(message)\<close> returned), \<open>nm_console\<close> the trace of
  \<open>console.warn\<close> and \<open>console.error\<close>; \<open>console.log\<close> lines are left out.
  \<open>nm_pinging\<close> says that \<open>pingIntervalId\<close> is set.  The four callbacks are run by
  the owner of the manager on the state a method returns.
\<close>

record NetworkManager =
  nm_peer :: "Peer option"
  nm_connection :: "DataConnection option"
  nm_isHost :: bool
  nm_roomCode :: jsstring
  nm_status :: ConnectionStatus
  nm_latency :: int
  nm_lastPingTime :: int
  nm_pinging :: bool
  nm_transmitted :: "NetworkMessage list"
  nm_console :: "console_entry list"

definition NetworkManager_new :: NetworkManager where
  "NetworkManager_new =
     \<lparr>nm_peer = None, nm_connection = None, nm_isHost = False, nm_roomCode = [],
      nm_status = Status_disconnected, nm_latency = 0, nm_lastPingTime = 0, nm_pinging = False,
      nm_transmitted = [], nm_console = []\<rparr>"

definition isHostPlayer :: "NetworkManager \<Rightarrow> bool" where
  "isHostPlayer nm = nm_isHost nm"

definition updateStatus :: "NetworkManager \<Rightarrow> ConnectionStatus \<Rightarrow> NetworkManager" where
  "updateStatus nm newStatus = nm\<lparr>nm_status := newStatus\<rparr>"

definition console_warn :: "NetworkManager \<Rightarrow> string \<Rightarrow> NetworkManager" where
  "console_warn nm text = nm\<lparr>nm_console := nm_console nm @ [Console_warn text]\<rparr>"

definition console_error :: "NetworkManager \<Rightarrow> string \<Rightarrow> NetworkManager" where
  "console_error nm text = nm\<lparr>nm_console := nm_console nm @ [Console_error text]\<rparr>"

definition chars :: string where
  "chars = ''ABCDEFGHIJKLMNOPQRSTUVWXYZ0123456789''"

definition charAt :: "string \<Rightarrow> int \<Rightarrow> string" where
  \<comment> \<open>the empty string out of range\<close>
  "charAt s i = (if 0 \<le> i \<and> i < int (length s) then [s ! nat i] else [])"

function generateRoomCode_loop :: "(nat \<Rightarrow> double) \<Rightarrow> nat \<Rightarrow> string \<Rightarrow> string" where
  "generateRoomCode_loop random i code =
     (if i < 6
      then generateRoomCode_loop random (Suc i)
             (code @ charAt chars (double_floor (double_times (random i) (length chars))))
      else code)"
  by pat_completeness auto
termination
  by (relation "measure (\<lambda>(random, i, code). 6 - i)") auto

declare generateRoomCode_loop.simps [simp del]

definition generateRoomCode :: "(nat \<Rightarrow> double) \<Rightarrow> string" where
  "generateRoomCode random = generateRoomCode_loop random 0 []"

definition createRoom :: "Env \<Rightarrow> NetworkManager \<Rightarrow> NetworkManager" where
  "createRoom env nm =
     (let nm1 = nm\<lparr>nm_isHost := True,
                    nm_roomCode := js_string (generateRoomCode (env_random env))\<rparr>;
          nm2 = updateStatus nm1 Status_connecting
      in if env_peerThrows env
         then updateStatus (console_error nm2 ''Failed to create room:'') Status_error
         else nm2\<lparr>nm_peer := Some \<lparr>peer_id = Some (nm_roomCode nm2)\<rparr>\<rparr>)"

definition is_lower :: "char \<Rightarrow> bool" where
  "is_lower c = (97 \<le> (of_char c :: nat) \<and> (of_char c :: nat) \<le> 122)"

definition is_upper :: "char \<Rightarrow> bool" where
  "is_upper c = (65 \<le> (of_char c :: nat) \<and> (of_char c :: nat) \<le> 90)"

definition is_digit :: "char \<Rightarrow> bool" where
  "is_digit c = (48 \<le> (of_char c :: nat) \<and> (of_char c :: nat) \<le> 57)"

text \<open>
  The name of a key is a string of 8-bit characters.  The key handler lower-cases it
  only to compare it with \<open>c\<close>, \<open>j\<close> and \<open>r\<close>; no character but the capital has one
  of these letters for its lower-case form, so the ASCII mapping decides the
  comparisons as the code does.
\<close>

definition toLowerCase :: "string \<Rightarrow> string" where
  "toLowerCase s = map (\<lambda>c. if is_upper c then char_of (of_char c + (32::nat)) else c) s"

definition joinRoom :: "Env \<Rightarrow> NetworkManager \<Rightarrow> jsstring \<Rightarrow> NetworkManager" where
  "joinRoom env nm roomCode =
     (let nm1 = nm\<lparr>nm_isHost := False,
                    nm_roomCode := toUpperCase (env_upperCase env) roomCode\<rparr>;
          nm2 = updateStatus nm1 Status_connecting
      in if env_peerThrows env
         then updateStatus (console_error nm2 ''Failed to join room:'') Status_error
         else nm2\<lparr>nm_peer := Some \<lparr>peer_id = None\<rparr>\<rparr>)"

text \<open>The handlers the manager registers on its peer and on its connection.\<close>

definition joinRoom_on_open :: "NetworkManager \<Rightarrow> NetworkManager" where
  \<comment> \<open>\<open>this.connection = this.peer!.connect(this.roomCode, {reliable: true})\<close>\<close>
  "joinRoom_on_open nm =
     nm\<lparr>nm_connection := Some \<lparr>conn_peer = nm_roomCode nm, conn_open = False\<rparr>\<rparr>"

definition createRoom_on_connection :: "NetworkManager \<Rightarrow> DataConnection \<Rightarrow> NetworkManager" where
  "createRoom_on_connection nm conn = nm\<lparr>nm_connection := Some conn\<rparr>"

definition peer_on_error :: "NetworkManager \<Rightarrow> NetworkManager" where
  "peer_on_error nm = updateStatus (console_error nm ''Peer error:'') Status_error"

definition connection_on_open :: "NetworkManager \<Rightarrow> NetworkManager" where
  \<comment> \<open>the transport has opened the channel: \<open>updateStatus('connected')\<close>,
     \<open>startPingInterval()\<close>\<close>
  "connection_on_open nm =
     (updateStatus (nm\<lparr>nm_connection := map_option (\<lambda>c. c\<lparr>conn_open := True\<rparr>) (nm_connection nm)\<rparr>)
        Status_connected)\<lparr>nm_pinging := True\<rparr>"

definition connection_on_close :: "NetworkManager \<Rightarrow> NetworkManager" where
  "connection_on_close nm =
     (updateStatus (nm\<lparr>nm_connection := map_option (\<lambda>c. c\<lparr>conn_open := False\<rparr>) (nm_connection nm)\<rparr>)
        Status_disconnected)\<lparr>nm_pinging := False\<rparr>"

definition connection_on_error :: "NetworkManager \<Rightarrow> NetworkManager" where
  "connection_on_error nm = updateStatus (console_error nm ''Connection error:'') Status_error"

definition connection_send :: "Env \<Rightarrow> NetworkManager \<Rightarrow> NetworkMessage \<Rightarrow> js_error + NetworkManager" where
  \<comment> \<open>the transport's \<open>this.connection.send(message)\<close>: it raises, or the message is on
     its way\<close>
  "connection_send env nm message =
     (if env_sendThrows env then Inl TransportError
      else Inr (nm\<lparr>nm_transmitted := nm_transmitted nm @ [message]\<rparr>))"

definition send :: "Env \<Rightarrow> NetworkManager \<Rightarrow> NetworkMessage \<Rightarrow> js_error + NetworkManager" where
  "send env nm message =
     (case nm_connection nm of
        None \<Rightarrow> Inr (console_warn nm ''Cannot send message: connection not open'')
      | Some c \<Rightarrow>
          if conn_open c
          then (case connection_send env nm message of
                  Inr nm' \<Rightarrow> Inr nm'
                | Inl error \<Rightarrow> Inr (console_error nm ''Failed to send message:''))
          else Inr (console_warn nm ''Cannot send message: connection not open''))"

definition disconnect :: "NetworkManager \<Rightarrow> NetworkManager" where
  "disconnect nm =
     (updateStatus (nm\<lparr>nm_pinging := False, nm_connection := None, nm_peer := None\<rparr>)
        Status_disconnected)\<lparr>nm_isHost := False, nm_roomCode := []\<rparr>"

definition channel_open :: "NetworkManager \<Rightarrow> bool" where
  \<comment> \<open>\<open>this.connection && this.connection.open\<close>\<close>
  "channel_open nm = (case nm_connection nm of None \<Rightarrow> False | Some c \<Rightarrow> conn_open c)"

definition isConnected :: "NetworkManager \<Rightarrow> bool" where
  "isConnected nm =
     (nm_status nm = Status_connected \<and>
      (case nm_connection nm of None \<Rightarrow> False | Some c \<Rightarrow> conn_open c))"

text \<open>
  A host whose room a guest has joined and whose peer then reports an error: the handler
  of the peer's \<open>error\<close> event sets the status and leaves the connection as it is.
\<close>

definition host_after_peer_error :: NetworkManager where
  "host_after_peer_error =
     peer_on_error
       (connection_on_open
         (createRoom_on_connection
           (createRoom \<lparr>env_now = 0, env_random = (\<lambda>i. double_zero),
                        env_upperCase = (\<lambda>c. [c]), env_peerThrows = False,
                        env_sendThrows = False\<rparr> NetworkManager_new)
           \<lparr>conn_peer = js_string ''guest'', conn_open = False\<rparr>))"

section \<open>LobbyUI (ui/LobbyUI.ts)\<close>

datatype LobbyMode = Mode_menu | Mode_create | Mode_join

text \<open>
  \<open>lobby_gameStarts\<close> counts the calls of \<open>startGame()\<close>, that is of the
  \<open>onGameStart\<close> callback; drawing is left out.
\<close>

record LobbyUI =
  lobby_networkManager :: NetworkManager
  lobby_mode :: LobbyMode
  lobby_roomCodeInput :: jsstring
  lobby_status :: string
  lobby_isReady :: bool
  lobby_remoteReady :: bool
  lobby_gameStarts :: nat

definition updateStatusMessage :: "LobbyUI \<Rightarrow> ConnectionStatus \<Rightarrow> LobbyUI" where
  "updateStatusMessage lobby status =
     (case status of
        Status_connecting \<Rightarrow> lobby\<lparr>lobby_status := ''Connecting...''\<rparr>
      | Status_connected \<Rightarrow> lobby\<lparr>lobby_status := ''Connected! Press R when ready.''\<rparr>
      | Status_disconnected \<Rightarrow> lobby\<lparr>lobby_status := ''Disconnected''\<rparr>
      | Status_error \<Rightarrow> lobby\<lparr>lobby_status := ''Connection error. Please try again.''\<rparr>)"

definition withNetworkManager :: "LobbyUI \<Rightarrow> NetworkManager \<Rightarrow> LobbyUI" where
  \<comment> \<open>the manager after a call that ran \<open>updateStatus\<close>, and the lobby's status callback\<close>
  "withNetworkManager lobby nm =
     updateStatusMessage (lobby\<lparr>lobby_networkManager := nm\<rparr>) (nm_status nm)"

definition startGame :: "LobbyUI \<Rightarrow> LobbyUI" where
  "startGame lobby = lobby\<lparr>lobby_gameStarts := Suc (lobby_gameStarts lobby)\<rparr>"

definition checkBothReady :: "Env \<Rightarrow> LobbyUI \<Rightarrow> js_error + LobbyUI" where
  "checkBothReady env lobby =
     (if lobby_isReady lobby \<and> lobby_remoteReady lobby
      then if isHostPlayer (lobby_networkManager lobby)
           then (case send env (lobby_networkManager lobby) (StartGameMessage (env_now env)) of
                   Inl e \<Rightarrow> Inl e
                 | Inr nm \<Rightarrow> Inr (startGame (lobby\<lparr>lobby_networkManager := nm\<rparr>)))
           else Inr lobby
      else Inr lobby)"

definition onMessage :: "Env \<Rightarrow> LobbyUI \<Rightarrow> NetworkMessage \<Rightarrow> js_error + LobbyUI" where
  \<comment> \<open>the callback \<open>setupNetworkCallbacks\<close> gives to \<open>setOnMessage\<close>\<close>
  "onMessage env lobby message =
     (case message of
        PlayerReadyMessage playerName ts \<Rightarrow>
          checkBothReady env
            (lobby\<lparr>lobby_remoteReady := True, lobby_status := ''Other player is ready!''\<rparr>)
      | StartGameMessage ts \<Rightarrow> Inr (startGame lobby)
      | _ \<Rightarrow> Inr lobby)"

definition is_alnum_key :: "string \<Rightarrow> bool" where
  \<comment> \<open>\<open>e.key.length === 1 && /[A-Z0-9]/i.test(e.key)\<close>\<close>
  "is_alnum_key key =
     (case key of [c] \<Rightarrow> is_upper c \<or> is_lower c \<or> is_digit c | _ \<Rightarrow> False)"

definition escapeKey :: "LobbyUI \<Rightarrow> string \<Rightarrow> LobbyUI" where
  "escapeKey lobby key =
     (if key = ''Escape'' \<and> lobby_mode lobby \<noteq> Mode_menu
      then (withNetworkManager lobby (disconnect (lobby_networkManager lobby)))
             \<lparr>lobby_mode := Mode_menu, lobby_roomCodeInput := [], lobby_status := [],
              lobby_isReady := False, lobby_remoteReady := False\<rparr>
      else lobby)"

definition readyKey :: "Env \<Rightarrow> LobbyUI \<Rightarrow> string \<Rightarrow> js_error + LobbyUI" where
  \<comment> \<open>the branch \<open>else if (this.networkManager.isConnected())\<close> of the key handler\<close>
  "readyKey env lobby key =
     (if toLowerCase key = ''r'' \<and> \<not> lobby_isReady lobby
      then (case send env (lobby_networkManager lobby)
                   (PlayerReadyMessage
                      (if isHostPlayer (lobby_networkManager lobby) then ''Player 1'' else ''Player 2'')
                      (env_now env)) of
              Inl e \<Rightarrow> Inl e
            | Inr nm \<Rightarrow>
                checkBothReady env
                  (lobby\<lparr>lobby_isReady := True, lobby_networkManager := nm,
                         lobby_status := ''You are ready! Waiting for other player...''\<rparr>))
      else Inr lobby)"

definition keydown :: "Env \<Rightarrow> LobbyUI \<Rightarrow> string \<Rightarrow> js_error + LobbyUI" where
  \<comment> \<open>the \<open>keydown\<close> listener of \<open>setupInputHandlers\<close>, \<open>key\<close> is \<open>e.key\<close>\<close>
  "keydown env lobby key =
     (case
        (if lobby_mode lobby = Mode_menu
         then if toLowerCase key = ''c''
              then Inr (withNetworkManager (lobby\<lparr>lobby_mode := Mode_create\<rparr>)
                          (createRoom env (lobby_networkManager lobby)))
              else if toLowerCase key = ''j''
              then Inr (lobby\<lparr>lobby_mode := Mode_join, lobby_roomCodeInput := []\<rparr>)
              else Inr lobby
         else if lobby_mode lobby = Mode_join
         then if is_alnum_key key
              then if length (lobby_roomCodeInput lobby) < 6
                   then Inr (lobby\<lparr>lobby_roomCodeInput :=
                                     lobby_roomCodeInput lobby @
                                     toUpperCase (env_upperCase env) (js_string key)\<rparr>)
                   else Inr lobby
              else if key = ''Backspace''
              then Inr (lobby\<lparr>lobby_roomCodeInput := butlast (lobby_roomCodeInput lobby)\<rparr>)
              else if key = ''Enter'' \<and> length (lobby_roomCodeInput lobby) = 6
              then Inr ((withNetworkManager lobby
                           (joinRoom env (lobby_networkManager lobby) (lobby_roomCodeInput lobby)))
                          \<lparr>lobby_mode := Mode_create\<rparr>)
              else Inr lobby
         else if isConnected (lobby_networkManager lobby)
         then readyKey env lobby key
         else Inr lobby) of
        Inl e \<Rightarrow> Inl e
      | Inr lobby' \<Rightarrow> Inr (escapeKey lobby' key))"

definition handleInput :: "Env \<Rightarrow> LobbyUI \<Rightarrow> string \<Rightarrow> LobbyUI" where
  "handleInput env lobby key =
     escapeKey
       (if lobby_mode lobby = Mode_menu
        then if toLowerCase key = ''c''
             then withNetworkManager (lobby\<lparr>lobby_mode := Mode_create\<rparr>)
                    (createRoom env (lobby_networkManager lobby))
             else if toLowerCase key = ''j''
             then lobby\<lparr>lobby_mode := Mode_join, lobby_roomCodeInput := []\<rparr>
             else lobby
        else lobby)
       key"

text \<open>
  The events the lobby handles: a key of its own \<open>keydown\<close> listener, a key passed to
  \<open>handleInput\<close>, a message given to its callback.  The messages a handler hands to
  the transport are what \<open>nm_transmitted\<close> holds after it and did not hold before.
\<close>

datatype LobbyEvent = Key string | Input string | Received NetworkMessage

definition lobby_step :: "Env \<Rightarrow> LobbyUI \<Rightarrow> LobbyEvent \<Rightarrow> js_error + LobbyUI" where
  "lobby_step env lobby ev =
     (case ev of
        Key key \<Rightarrow> keydown env lobby key
      | Input key \<Rightarrow> Inr (handleInput env lobby key)
      | Received message \<Rightarrow> onMessage env lobby message)"

text \<open>
  \<open>checkBothReady\<close> is called at two places: by the key listener when R is pressed for
  the first time in the waiting screen of a connected peer, after \<open>isReady\<close> is set, and
  by the message callback on \<open>PLAYER_READY\<close>, after \<open>remoteReady\<close> is set.  These are
  the events of the ready exchange.
\<close>

definition runs_checkBothReady :: "LobbyUI \<Rightarrow> LobbyEvent \<Rightarrow> bool" where
  "runs_checkBothReady lobby ev =
     (case ev of
        Key key \<Rightarrow>
          lobby_mode lobby = Mode_create \<and> isConnected (lobby_networkManager lobby) \<and>
          toLowerCase key = ''r'' \<and> \<not> lobby_isReady lobby
      | Input key \<Rightarrow> False
      | Received message \<Rightarrow>
          (case message of PlayerReadyMessage playerName ts \<Rightarrow> True | _ \<Rightarrow> False))"

definition is_StartGame :: "NetworkMessage \<Rightarrow> bool" where
  "is_StartGame message = (case message of StartGameMessage ts \<Rightarrow> True | _ \<Rightarrow> False)"

definition newly_transmitted :: "LobbyUI \<Rightarrow> LobbyUI \<Rightarrow> NetworkMessage list" where
  "newly_transmitted lobby lobby' =
     drop (length (nm_transmitted (lobby_networkManager lobby)))
       (nm_transmitted (lobby_networkManager lobby'))"

text \<open>A guest in the ready exchange, connected to the room \<open>AB12C9\<close>, nobody ready yet.\<close>

definition guest_in_lobby :: LobbyUI where
  "guest_in_lobby =
     \<lparr>lobby_networkManager =
        connection_on_open
          (joinRoom_on_open
            (joinRoom \<lparr>env_now = 0, env_random = (\<lambda>i. double_zero),
                        env_upperCase = (\<lambda>c. [c]), env_peerThrows = False,
                       env_sendThrows = False\<rparr> NetworkManager_new (js_string ''ab12c9''))),
      lobby_mode = Mode_create, lobby_roomCodeInput = js_string ''AB12C9'',
      lobby_status = ''Connected! Press R when ready.'',
      lobby_isReady = False, lobby_remoteReady = False, lobby_gameStarts = 0\<rparr>"

definition env0 :: Env where
  "env0 = \<lparr>env_now = 1000, env_random = (\<lambda>i. double_half),
           env_upperCase = (\<lambda>c. [c]), env_peerThrows = False,
           env_sendThrows = False\<rparr>"


text \<open>
  The guest after the host's \<open>PLAYER_READY\<close> has arrived, and a host that has pressed R
  and waits for its guest.
\<close>

definition guest_remote_ready :: LobbyUI where
  "guest_remote_ready = guest_in_lobby\<lparr>lobby_remoteReady := True\<rparr>"

definition host_local_ready :: LobbyUI where
  "host_local_ready =
     \<lparr>lobby_networkManager =
        connection_on_open
          (createRoom_on_connection
            (createRoom \<lparr>env_now = 0, env_random = (\<lambda>i. double_zero),
                        env_upperCase = (\<lambda>c. [c]), env_peerThrows = False,
                         env_sendThrows = False\<rparr> NetworkManager_new)
            \<lparr>conn_peer = js_string ''guest'', conn_open = False\<rparr>),
      lobby_mode = Mode_create, lobby_roomCodeInput = [],
      lobby_status = ''You are ready! Waiting for other player...'',
      lobby_isReady = True, lobby_remoteReady = False, lobby_gameStarts = 0\<rparr>"

text \<open>A host whose guest is ready and that has not pressed R itself.\<close>

definition host_remote_ready :: LobbyUI where
  "host_remote_ready =
     host_local_ready\<lparr>lobby_status := ''Other player is ready!'',
                       lobby_isReady := False, lobby_remoteReady := True\<rparr>"

section \<open>MultiplayerGameManager (MultiplayerGameManager.ts, and its later variant)\<close>

record MultiplayerGameManager =
  mgm_gameManager :: "Simulation option"
  mgm_inLobby :: bool
  mgm_isHost :: bool
  mgm_lastSyncTime :: int
  mgm_remoteInput :: InputState
  mgm_localInput :: InputState

definition handleNetworkMessage :: "MultiplayerGameManager \<Rightarrow> NetworkMessage \<Rightarrow> MultiplayerGameManager" where
  "handleNetworkMessage m message =
     (case message of
        InputMessage d ts \<Rightarrow> m\<lparr>mgm_remoteInput := d\<rparr>
      | StateUpdateMessage st ts \<Rightarrow>
          (case mgm_gameManager m of
             Some gm \<Rightarrow> if \<not> mgm_isHost m then m\<lparr>mgm_gameManager := Some (applyGameState gm st)\<rparr> else m
           | None \<Rightarrow> m)
      | _ \<Rightarrow> m)"

definition applyInput :: "InputState \<Rightarrow> Player \<Rightarrow> Player" where
  \<comment> \<open>the body of \<open>applyInputToPlayer\<close> on the player it has found\<close>
  "applyInput input player =
     (let p = player\<lparr>player_movement :=
                (if input_left input then LEFT
                 else if input_right input then RIGHT else STATIONARY)\<rparr>
      in if input_shoot input \<and> \<not> arrow_active p
         then (case player_arrow p of
                 Some a \<Rightarrow> p\<lparr>player_arrow := Some (a\<lparr>arrow_isActive := True, arrow_isHittable := True\<rparr>)\<rparr>
               | None \<Rightarrow> p)
         else p)"

definition applyInputToPlayer :: "nat \<Rightarrow> InputState \<Rightarrow> MultiplayerGameManager \<Rightarrow> MultiplayerGameManager" where
  "applyInputToPlayer playerIndex input m =
     (case mgm_gameManager m of
        None \<Rightarrow> m
      | Some gm \<Rightarrow>
          (case seat (gm_players gm) playerIndex of
             None \<Rightarrow> m
           | Some player \<Rightarrow>
               m\<lparr>mgm_gameManager :=
                   Some (gm\<lparr>gm_players := (gm_players gm)[playerIndex := applyInput input player]\<rparr>)\<rparr>))"

text \<open>Scenario E: the input \<open>{left: true, right: false, shoot: false}\<close>.\<close>

definition scenario_E :: InputState where
  "scenario_E = \<lparr>input_left = True, input_right = False, input_shoot = False\<rparr>"

text \<open>
  The later variant routes lobby messages to \<open>lobbyUI.handleMessage\<close> and applies a
  guest's input on receipt.  \<open>handleMessage\<close> and \<open>Player.shootArrow\<close> are not among the
  sources: they are parameters.
\<close>

record MultiplayerGameManager_v2 =
  v2_gameManager :: "Simulation option"
  v2_inLobby :: bool
  v2_isHost :: bool
  v2_lastSyncTime :: int

definition applyGuestInput ::
  "(Player \<Rightarrow> Player) \<Rightarrow> InputState \<Rightarrow> MultiplayerGameManager_v2 \<Rightarrow> MultiplayerGameManager_v2" where
  "applyGuestInput shootArrow input m =
     (case v2_gameManager m of
        None \<Rightarrow> m
      | Some gm \<Rightarrow>
          if length (gm_players gm) < 2 then m
          else
            (let guestPlayer = gm_players gm ! 1;
                 p = (if input_left input
                      then guestPlayer\<lparr>player_movement := LEFT, player_tempMovement := LEFT\<rparr>
                      else if input_right input
                      then guestPlayer\<lparr>player_movement := RIGHT, player_tempMovement := RIGHT\<rparr>
                      else if \<not> input_shoot input
                      then guestPlayer\<lparr>player_movement := STATIONARY, player_tempMovement := STATIONARY\<rparr>
                      else guestPlayer);
                 p' = (if input_shoot input \<and> \<not> arrow_active p then shootArrow p else p)
             in m\<lparr>v2_gameManager := Some (gm\<lparr>gm_players := (gm_players gm)[1 := p']\<rparr>)\<rparr>))"

definition handleNetworkMessage_v2 ::
  "(MultiplayerGameManager_v2 \<Rightarrow> NetworkMessage \<Rightarrow> MultiplayerGameManager_v2) \<Rightarrow> (Player \<Rightarrow> Player) \<Rightarrow>
   MultiplayerGameManager_v2 \<Rightarrow> NetworkMessage \<Rightarrow> MultiplayerGameManager_v2" where
  "handleNetworkMessage_v2 handleMessage shootArrow m message =
     (if v2_inLobby m then handleMessage m message
      else
        (case message of
           InputMessage d ts \<Rightarrow>
             (if v2_isHost m \<and> v2_gameManager m \<noteq> None then applyGuestInput shootArrow d m else m)
         | StateUpdateMessage st ts \<Rightarrow>
             (case v2_gameManager m of
                Some gm \<Rightarrow> if \<not> v2_isHost m then m\<lparr>v2_gameManager := Some (applyGameState gm st)\<rparr> else m
              | None \<Rightarrow> m)
         | _ \<Rightarrow> m))"

text \<open>A host in a running game, in either variant, on the simulation \<open>guest_shot\<close>.\<close>

definition host_in_game :: MultiplayerGameManager where
  "host_in_game =
     \<lparr>mgm_gameManager = Some guest_shot, mgm_inLobby = False, mgm_isHost = True,
      mgm_lastSyncTime = 0,
      mgm_remoteInput = \<lparr>input_left = False, input_right = True, input_shoot = False\<rparr>,
      mgm_localInput = \<lparr>input_left = False, input_right = False, input_shoot = False\<rparr>\<rparr>"

definition host_in_game_v2 :: MultiplayerGameManager_v2 where
  "host_in_game_v2 =
     \<lparr>v2_gameManager = Some guest_shot, v2_inLobby = False, v2_isHost = True,
      v2_lastSyncTime = 0\<rparr>"

section \<open>Properties of the synchronisation engine\<close>

subsection \<open>Lists of players under the two loops of applyArrows\<close>

lemma applyBubbles_forEach_map:
  "applyBubbles_forEach bs acc =
     acc @ map (\<lambda>b. \<lparr>bubble_x = bs_x b, bubble_y = bs_y b, bubble_radius = bs_radius b,
                      bubble_dx = bs_dx b, bubble_dy = bs_dy b\<rparr>) bs"
  by (induction bs arbitrary: acc) simp_all

lemma seat_simps [simp]:
  "seat [] i = None" "seat (p # ps) 0 = Some p" "seat (p # ps) (Suc i) = seat ps i"
  by (simp_all add: seat_def)

lemma length_placeArrow [simp]: "length (placeArrow a i ps) = length ps"
  by (simp add: placeArrow_def split: option.splits)

lemma length_applyArrows_forEach [simp]: "length (applyArrows_forEach as i ps) = length ps"
  by (induction as arbitrary: i ps) simp_all

lemma length_applySeat [simp]: "length (applySeat i st ps) = length ps"
  by (simp add: applySeat_def seat_def split: option.splits)

lemma map_placeArrow:
  assumes "\<And>p a. f (p\<lparr>player_arrow := a\<rparr>) = f p"
  shows "map f (placeArrow a i ps) = map f ps"
  by (simp add: placeArrow_def map_update assms list_update_same_conv[THEN iffD2] split: option.splits)

lemma map_applyArrows_forEach:
  assumes "\<And>p a. f (p\<lparr>player_arrow := a\<rparr>) = f p"
  shows "map f (applyArrows_forEach as i ps) = map f ps"
  by (induction as arbitrary: i ps) (simp_all add: map_placeArrow[OF assms])

lemma map_resetArrow:
  assumes "\<And>p a. f (p\<lparr>player_arrow := a\<rparr>) = f p"
  shows "map f (map resetArrow ps) = map f ps"
  by (simp add: resetArrow_def assms split: option.splits)

lemma placeArrow_active:
  "j < length ps \<Longrightarrow>
   arrow_active (placeArrow a i ps ! j) =
     (if j = i then player_arrow (ps ! j) \<noteq> None \<and> as_isActive a else arrow_active (ps ! j))"
  by (auto simp: placeArrow_def arrow_active_def nth_list_update split: option.splits)

lemma placeArrow_has_arrow:
  "j < length ps \<Longrightarrow> (player_arrow (placeArrow a i ps ! j) = None) = (player_arrow (ps ! j) = None)"
  by (auto simp: placeArrow_def nth_list_update split: option.splits)

lemma applyArrows_forEach_has_arrow:
  "j < length ps \<Longrightarrow>
   (player_arrow (applyArrows_forEach as i ps ! j) = None) = (player_arrow (ps ! j) = None)"
  by (induction as arbitrary: i ps) (simp_all add: placeArrow_has_arrow)

lemma applyArrows_forEach_active:
  "j < length ps \<Longrightarrow>
   arrow_active (applyArrows_forEach as i ps ! j) =
     (if i \<le> j \<and> j < i + length as
      then player_arrow (ps ! j) \<noteq> None \<and> as_isActive (as ! (j - i))
      else arrow_active (ps ! j))"
proof (induction as arbitrary: i ps)
  case Nil
  then show ?case by auto
next
  case (Cons a as)
  then show ?case
    by (auto simp: placeArrow_active placeArrow_has_arrow nth_Cons' Suc_diff_le)
qed

lemma arrow_active_resetArrow [simp]: "\<not> arrow_active (resetArrow p)"
  by (simp add: arrow_active_def resetArrow_def split: option.splits)

lemma player_arrow_resetArrow [simp]:
  "(player_arrow (resetArrow p) = None) = (player_arrow p = None)"
  by (simp add: resetArrow_def split: option.splits)

lemma applySeat_nth:
  "j < length ps \<Longrightarrow> applySeat i st ps ! j =
     (case st of Some s \<Rightarrow> if j = i then applyPlayerState (ps ! j) s else ps ! j | None \<Rightarrow> ps ! j)"
  by (simp add: applySeat_def seat_def nth_list_update split: option.splits)

lemma applySeat_arrow [simp]: "map player_arrow (applySeat i st ps) = map player_arrow ps"
  by (simp add: applySeat_def seat_def map_update applyPlayerState_def
      list_update_same_conv[THEN iffD2] split: option.splits)

subsection \<open>What applyGameState leaves in each part of the simulation\<close>

lemma applyGameState_players:
  "gm_players (applyGameState gm st) =
     applyArrows_forEach (gs_arrows st) 0
       (map resetArrow (applySeat 1 (gs_player2 st) (applySeat 0 (gs_player1 st) (gm_players gm))))"
  by (simp add: applyGameState_def applyArrows_def applyBubbles_def applyScore_def Let_def
      split: option.splits)

lemma applyGameState_length [simp]:
  "length (gm_players (applyGameState gm st)) = length (gm_players gm)"
  by (simp add: applyGameState_players)

lemma applyGameState_bubbles:
  "gm_bubbleArray (applyGameState gm st) =
     map (\<lambda>b. \<lparr>bubble_x = bs_x b, bubble_y = bs_y b, bubble_radius = bs_radius b,
                bubble_dx = bs_dx b, bubble_dy = bs_dy b\<rparr>) (gs_bubbles st)"
  by (simp add: applyGameState_def applyArrows_def applyBubbles_def applyScore_def Let_def
      applyBubbles_forEach_map split: option.splits)

lemma applyGameState_score:
  "gm_score (applyGameState gm st) =
     map_option (\<lambda>sc. sc\<lparr>score_score := gs_score st\<rparr>) (gm_score gm)"
  by (simp add: applyGameState_def applyArrows_def applyBubbles_def applyScore_def Let_def
      split: option.splits)

lemma applyGameState_time_level:
  "gm_timeRemaining (applyGameState gm st) = gs_timeRemaining st"
  "gm_currentLevel (applyGameState gm st) = gs_level st"
  by (simp_all add: applyGameState_def applyArrows_def applyBubbles_def applyScore_def Let_def
      split: option.splits)

lemma applyGameState_body:
  assumes f: "\<And>p a. f (p\<lparr>player_arrow := a\<rparr>) = f p" and i: "i < length (gm_players gm)"
  shows "f (gm_players (applyGameState gm st) ! i) =
         f (applySeat 1 (gs_player2 st) (applySeat 0 (gs_player1 st) (gm_players gm)) ! i)"
proof -
  let ?ps = "applySeat 1 (gs_player2 st) (applySeat 0 (gs_player1 st) (gm_players gm))"
  have "map f (gm_players (applyGameState gm st)) = map f ?ps"
    by (simp only: applyGameState_players map_applyArrows_forEach[OF f] map_resetArrow[OF f])
  moreover have "i < length (gm_players (applyGameState gm st))" "i < length ?ps"
    using i by simp_all
  ultimately show ?thesis by (metis nth_map)
qed

lemma applyGameState_active:
  assumes "i < length (gm_players gm)"
  shows "arrow_active (gm_players (applyGameState gm st) ! i) =
          (player_arrow (gm_players gm ! i) \<noteq> None \<and> i < length (gs_arrows st) \<and>
           as_isActive (gs_arrows st ! i))"
proof -
  let ?ps = "applySeat 1 (gs_player2 st) (applySeat 0 (gs_player1 st) (gm_players gm))"
  have len: "length ?ps = length (gm_players gm)" by simp
  have "map player_arrow ?ps = map player_arrow (gm_players gm)" by simp
  then have arr: "player_arrow (?ps ! i) = player_arrow (gm_players gm ! i)"
    using assms len by (metis nth_map)
  show ?thesis
    using assms arr
    by (simp add: applyGameState_players applyArrows_forEach_active)
qed

lemma seat_record_arrow [simp]: "seat_record (p\<lparr>player_arrow := a\<rparr>) = seat_record p"
  by (simp add: seat_record_def)

lemma seat_record_applyPlayerState [simp]: "seat_record (applyPlayerState p st) = st"
  by (simp add: seat_record_def applyPlayerState_def)

lemma applyGameState_seat_record:
  assumes "i < length (gm_players gm)"
  shows "seat_record (gm_players (applyGameState gm st) ! i) =
     (if i = 0 then (case gs_player1 st of Some s \<Rightarrow> s | None \<Rightarrow> seat_record (gm_players gm ! i))
      else if i = 1 then (case gs_player2 st of Some s \<Rightarrow> s | None \<Rightarrow> seat_record (gm_players gm ! i))
      else seat_record (gm_players gm ! i))"
proof -
  have "seat_record (gm_players (applyGameState gm st) ! i) =
        seat_record (applySeat 1 (gs_player2 st) (applySeat 0 (gs_player1 st) (gm_players gm)) ! i)"
    by (rule applyGameState_body[OF _ assms]) simp
  also have "\<dots> = (if i = 0 then (case gs_player1 st of Some s \<Rightarrow> s | None \<Rightarrow> seat_record (gm_players gm ! i))
      else if i = 1 then (case gs_player2 st of Some s \<Rightarrow> s | None \<Rightarrow> seat_record (gm_players gm ! i))
      else seat_record (gm_players gm ! i))"
    using assms by (auto simp: applySeat_nth split: option.splits)
  finally show ?thesis .
qed

text \<open>
  The round trip through a snapshot does reproduce the bubbles, and the record of each
  of the two seats whose \<open>lives\<close> is not \<open>0\<close> (the default \<open>3\<close> of
  \<open>player.lives || 3\<close> replaces a \<open>0\<close>).
\<close>

lemma bubble_of_serializeBubble [simp]: "bubble_of (serializeBubble b) = b"
  by (simp add: bubble_of_def serializeBubble_def js_or_def)

lemma serializeGameState_fields:
  "gs_player1 (serializeGameState gm) = Some (serializePlayer (seat (gm_players gm) 0))"
  "gs_player2 (serializeGameState gm) = Some (serializePlayer (seat (gm_players gm) 1))"
  "gs_bubbles (serializeGameState gm) = map serializeBubble (gm_bubbleArray gm)"
  by (simp_all add: serializeGameState_def serializeBubbles_def Let_def)

lemma serialize_apply_bubbles:
  "gm_bubbleArray (applyGameState gm (serializeGameState gm)) = gm_bubbleArray gm"
proof -
  have "gm_bubbleArray (applyGameState gm (serializeGameState gm)) =
        map bubble_of (map serializeBubble (gm_bubbleArray gm))"
    by (simp add: applyGameState_bubbles serializeGameState_fields bubble_of_def[abs_def])
  then show ?thesis by (simp add: comp_def)
qed

lemma serializePlayer_seat_record:
  "player_lives p \<noteq> 0 \<Longrightarrow> serializePlayer (Some p) = seat_record p"
  by (simp add: serializePlayer_def seat_record_def js_or_def)

lemma serialize_apply_seats:
  assumes "i < length (gm_players gm)" and "i < 2 \<longrightarrow> player_lives (gm_players gm ! i) \<noteq> 0"
  shows "seat_record (gm_players (applyGameState gm (serializeGameState gm)) ! i) =
         seat_record (gm_players gm ! i)"
proof -
  consider "i = 0" | "i = 1" | "2 \<le> i" by linarith
  then show ?thesis
  proof cases
    case 1
    with assms show ?thesis
      by (simp add: applyGameState_seat_record serializeGameState_fields seat_def
          serializePlayer_seat_record)
  next
    case 2
    with assms show ?thesis
      by (simp add: applyGameState_seat_record serializeGameState_fields seat_def
          serializePlayer_seat_record)
  next
    case 3
    with assms show ?thesis
      by (simp add: applyGameState_seat_record)
  qed
qed

text \<open>
  Claim C1 says that applying \<open>serializeGameState s\<close> back onto \<open>s\<close> reproduces the
  per-seat projectile activity of \<open>s\<close>.  The code does not: \<open>serializeArrows\<close> pushes
  the active projectiles only, without their seat, and \<open>applyArrows\<close> takes the position
  in that list for the seat.  In \<open>guest_shot\<close> seat 0 is idle and seat 1 has shot; the
  snapshot holds one arrow, and applying it makes seat 0 active and seat 1 idle.
\<close>

theorem serialize_apply_moves_projectile:
  "map arrow_active (gm_players guest_shot) = [False, True] \<and>
   gs_arrows (serializeGameState guest_shot) = [\<lparr>as_x = 7, as_y = 9, as_isActive = True\<rparr>] \<and>
   map arrow_active
     (gm_players (applyGameState guest_shot (serializeGameState guest_shot))) = [True, False]"
  by (simp add: guest_shot_def arrow_active_def serializeGameState_def serializeArrows_def
      js_or_def applyGameState_players applySeat_def serializePlayer_def applyPlayerState_def
      resetArrow_def placeArrow_def)

text \<open>
  Claim C2 (Scenario B): on every simulation with two seated players (and its score
  object) \<open>applyGameState\<close> with the snapshot \<open>scenario_B\<close> sets seat 0's record to
  exactly \<open>x = 100, y = 200, score = 5, lives = 2\<close>, empties the bubble collection,
  leaves no player with an active projectile, and sets score 5, timeRemaining 12000,
  level 2.
\<close>

theorem applyGameState_scenario_B:
  assumes "length (gm_players gm) = 2" and "gm_score gm = Some sc"
  shows "seat_record (gm_players (applyGameState gm scenario_B) ! 0) =
           \<lparr>ps_x = 100, ps_y = 200, ps_score = 5, ps_lives = 2\<rparr> \<and>
         gm_bubbleArray (applyGameState gm scenario_B) = [] \<and>
         (\<forall>p \<in> set (gm_players (applyGameState gm scenario_B)). \<not> arrow_active p) \<and>
         map_option score_score (gm_score (applyGameState gm scenario_B)) = Some (Some 5) \<and>
         gm_timeRemaining (applyGameState gm scenario_B) = Some 12000 \<and>
         gm_currentLevel (applyGameState gm scenario_B) = Some 2"
proof -
  let ?gm' = "applyGameState gm scenario_B"
  have seat0: "seat_record (gm_players ?gm' ! 0) = \<lparr>ps_x = 100, ps_y = 200, ps_score = 5, ps_lives = 2\<rparr>"
    using assms(1) by (simp add: applyGameState_seat_record scenario_B_def)
  have bub: "gm_bubbleArray ?gm' = []"
    by (simp add: applyGameState_bubbles scenario_B_def)
  have act: "\<forall>p \<in> set (gm_players ?gm'). \<not> arrow_active p"
  proof
    fix p assume "p \<in> set (gm_players ?gm')"
    then obtain i where i: "i < length (gm_players ?gm')" "p = gm_players ?gm' ! i"
      by (metis in_set_conv_nth)
    then have "i < length (gm_players gm)" by simp
    from applyGameState_active[OF this, of scenario_B] i show "\<not> arrow_active p"
      by (simp add: scenario_B_def)
  qed
  have sc: "map_option score_score (gm_score ?gm') = Some (Some 5)"
    using assms(2) by (simp add: applyGameState_score scenario_B_def)
  have tl: "gm_timeRemaining ?gm' = Some 12000" "gm_currentLevel ?gm' = Some 2"
    by (simp_all add: applyGameState_time_level scenario_B_def)
  from seat0 bub act sc tl show ?thesis by blast
qed

theorem applyGameState_scenario_B_witness:
  "length (gm_players guest_shot) = 2 \<and> gm_score guest_shot = Some \<lparr>score_score = Some 0\<rparr> \<and>
   seat_record (gm_players (applyGameState guest_shot scenario_B) ! 0) =
     \<lparr>ps_x = 100, ps_y = 200, ps_score = 5, ps_lives = 2\<rparr> \<and>
   gm_bubbleArray (applyGameState guest_shot scenario_B) = [] \<and>
   map_option score_score (gm_score (applyGameState guest_shot scenario_B)) = Some (Some 5) \<and>
   gm_timeRemaining (applyGameState guest_shot scenario_B) = Some 12000 \<and>
   gm_currentLevel (applyGameState guest_shot scenario_B) = Some 2"
proof -
  have h: "length (gm_players guest_shot) = 2" "gm_score guest_shot = Some \<lparr>score_score = Some 0\<rparr>"
    by (simp_all add: guest_shot_def)
  from applyGameState_scenario_B[OF h] h show ?thesis by simp
qed

text \<open>
  Claim C9: a snapshot without \<open>player1\<close> (respectively \<open>player2\<close>) leaves the record
  of seat 0 (seat 1) as it was, while the bubble collection is replaced by the
  snapshot's, every projectile-active flag is derived anew from the snapshot's arrows
  (a seat is active exactly when it has a projectile record and the entry at its index
  is active), and score, timeRemaining and level are overwritten with what the snapshot
  holds for them, \<open>undefined\<close> where the snapshot leaves them out.  The snapshot is any
  value of the shape of a delta: the theorem is for full snapshots and for every
  \<open>Partial<GameState>\<close> that carries the two collections.
\<close>

theorem applyGameState_absent_player:
  "(gs_player1 st = None \<and> 0 < length (gm_players gm) \<longrightarrow>
      seat_record (gm_players (applyGameState gm st) ! 0) = seat_record (gm_players gm ! 0)) \<and>
   (gs_player2 st = None \<and> 1 < length (gm_players gm) \<longrightarrow>
      seat_record (gm_players (applyGameState gm st) ! 1) = seat_record (gm_players gm ! 1)) \<and>
   gm_bubbleArray (applyGameState gm st) = map bubble_of (gs_bubbles st) \<and>
   (\<forall>i < length (gm_players gm).
      arrow_active (gm_players (applyGameState gm st) ! i) =
        (player_arrow (gm_players gm ! i) \<noteq> None \<and> i < length (gs_arrows st) \<and>
         as_isActive (gs_arrows st ! i))) \<and>
   gm_score (applyGameState gm st) =
     map_option (\<lambda>sc. sc\<lparr>score_score := gs_score st\<rparr>) (gm_score gm) \<and>
   gm_timeRemaining (applyGameState gm st) = gs_timeRemaining st \<and>
   gm_currentLevel (applyGameState gm st) = gs_level st"
proof -
  have p1: "gs_player1 st = None \<and> 0 < length (gm_players gm) \<longrightarrow>
      seat_record (gm_players (applyGameState gm st) ! 0) = seat_record (gm_players gm ! 0)"
    by (simp add: applyGameState_seat_record)
  have p2: "gs_player2 st = None \<and> 1 < length (gm_players gm) \<longrightarrow>
      seat_record (gm_players (applyGameState gm st) ! 1) = seat_record (gm_players gm ! 1)"
    by (simp add: applyGameState_seat_record)
  have bub: "gm_bubbleArray (applyGameState gm st) = map bubble_of (gs_bubbles st)"
    by (simp add: applyGameState_bubbles bubble_of_def[abs_def])
  have act: "\<forall>i < length (gm_players gm).
      arrow_active (gm_players (applyGameState gm st) ! i) =
        (player_arrow (gm_players gm ! i) \<noteq> None \<and> i < length (gs_arrows st) \<and>
         as_isActive (gs_arrows st ! i))"
    by (simp add: applyGameState_active)
  from p1 p2 bub act show ?thesis
    by (simp only: applyGameState_score applyGameState_time_level simp_thms)
qed

theorem applyGameState_absent_player_witness:
  "gs_player1 delta_only_bubbles = None \<and> gs_player2 delta_only_bubbles = None \<and>
   length (gm_players guest_shot) = 2 \<and>
   map seat_record (gm_players (applyGameState guest_shot delta_only_bubbles)) =
     map seat_record (gm_players guest_shot) \<and>
   gm_bubbleArray (applyGameState guest_shot delta_only_bubbles) =
     [\<lparr>bubble_x = 50, bubble_y = 60, bubble_radius = 8, bubble_dx = 1, bubble_dy = -2\<rparr>] \<and>
   map arrow_active (gm_players (applyGameState guest_shot delta_only_bubbles)) = [True, False] \<and>
   gm_score (applyGameState guest_shot delta_only_bubbles) = Some \<lparr>score_score = None\<rparr> \<and>
   gm_timeRemaining (applyGameState guest_shot delta_only_bubbles) = Some 39000 \<and>
   gm_currentLevel (applyGameState guest_shot delta_only_bubbles) = None"
proof -
  have len: "length (gm_players (applyGameState guest_shot delta_only_bubbles)) = 2"
    by (simp add: guest_shot_def)
  have l2: "length (gm_players guest_shot) = 2" by (simp add: guest_shot_def)
  have nth2: "\<And>xs ys :: 'a list. length xs = 2 \<Longrightarrow> length ys = 2 \<Longrightarrow> xs ! 0 = ys ! 0 \<Longrightarrow> xs ! 1 = ys ! 1 \<Longrightarrow> xs = ys"
    by (metis One_nat_def less_2_cases_iff nth_equalityI)
  note t = applyGameState_absent_player[of delta_only_bubbles guest_shot]
  have a: "gs_player1 delta_only_bubbles = None" "gs_player2 delta_only_bubbles = None"
    by (simp_all add: delta_only_bubbles_def)
  have s0: "seat_record (gm_players (applyGameState guest_shot delta_only_bubbles) ! 0) = seat_record (gm_players guest_shot ! 0)"
    using t a l2 by simp
  have s1: "seat_record (gm_players (applyGameState guest_shot delta_only_bubbles) ! 1) = seat_record (gm_players guest_shot ! 1)"
    using t a l2 by simp
  have seats: "map seat_record (gm_players (applyGameState guest_shot delta_only_bubbles)) =
     map seat_record (gm_players guest_shot)"
    by (rule nth2) (use len l2 s0 s1 in simp_all)
  have bub: "gm_bubbleArray (applyGameState guest_shot delta_only_bubbles) =
     [\<lparr>bubble_x = 50, bubble_y = 60, bubble_radius = 8, bubble_dx = 1, bubble_dy = -2\<rparr>]"
    using t by (simp add: delta_only_bubbles_def bubble_of_def)
  have a0: "arrow_active (gm_players (applyGameState guest_shot delta_only_bubbles) ! 0) = True"
    using t l2 by (simp add: delta_only_bubbles_def guest_shot_def)
  have a1: "arrow_active (gm_players (applyGameState guest_shot delta_only_bubbles) ! 1) = False"
    using t l2 by (simp add: delta_only_bubbles_def guest_shot_def)
  have act: "map arrow_active (gm_players (applyGameState guest_shot delta_only_bubbles)) = [True, False]"
    by (rule nth2) (use len a0 a1 in simp_all)
  have rest: "gm_score (applyGameState guest_shot delta_only_bubbles) = Some \<lparr>score_score = None\<rparr>"
    "gm_timeRemaining (applyGameState guest_shot delta_only_bubbles) = Some 39000"
    "gm_currentLevel (applyGameState guest_shot delta_only_bubbles) = None"
    using t by (simp_all add: delta_only_bubbles_def guest_shot_def)
  from a l2 seats bub act rest show ?thesis by simp
qed


section \<open>Properties of the message validator\<close>

lemma getProp_truthy:
  "truthy v \<Longrightarrow> name \<noteq> ''length'' \<Longrightarrow> getProp v name = Inr (field v name)"
  by (cases v) (simp_all add: field_def)

lemma field_falsy:
  "\<not> truthy v \<Longrightarrow> field v name = JUndefined"
  by (cases v) (simp_all add: field_def)

lemma is_object_iff: "is_object v \<longleftrightarrow> truthy v \<and> typeof v = Type_object"
  by (cases v) (simp_all add: is_object_def)

lemma validateInput_eq:
  "is_object msg \<Longrightarrow>
   validateInput msg =
     (let d = field msg ''data'' in
      if \<not> truthy d then Inr d
      else Inr (JBool (typeof (field d ''left'') = Type_boolean \<and>
                       typeof (field d ''right'') = Type_boolean \<and>
                       typeof (field d ''shoot'') = Type_boolean)))"
  by (simp add: validateInput_def is_object_iff getProp_truthy Let_def)

lemma validateStateUpdate_eq:
  "is_object msg \<Longrightarrow>
   validateStateUpdate msg =
     (let d = field msg ''data'' in if \<not> truthy d then Inr d else Inr (JBool (is_object d)))"
  by (simp add: validateStateUpdate_def is_object_iff getProp_truthy Let_def)

lemma validateGameOver_eq:
  "is_object msg \<Longrightarrow>
   validateGameOver msg =
     Inr (JBool (typeof (field msg ''won'') = Type_boolean \<and>
                 typeof (field msg ''finalScore'') = Type_number))"
  by (simp add: validateGameOver_def is_object_iff getProp_truthy)

lemma validatePlayerReady_eq:
  "is_object msg \<Longrightarrow>
   validatePlayerReady msg = Inr (JBool (typeof (field msg ''playerName'') = Type_string))"
  by (simp add: validatePlayerReady_def is_object_iff getProp_truthy)

lemma validateMessage_eq:
  "validateMessage msg =
     (if \<not> is_object msg then Inr (JBool False)
      else if field msg ''type'' \<notin> set MessageType_values then Inr (JBool False)
      else if typeof (field msg ''timestamp'') \<noteq> Type_number then Inr (JBool False)
      else if field msg ''type'' = JStr ''INPUT'' then validateInput msg
      else if field msg ''type'' = JStr ''STATE_UPDATE'' then validateStateUpdate msg
      else if field msg ''type'' = JStr ''GAME_OVER'' then validateGameOver msg
      else if field msg ''type'' = JStr ''PLAYER_READY'' then validatePlayerReady msg
      else Inr (JBool True))"
proof (cases "is_object msg")
  case False
  then show ?thesis by (simp add: validateMessage_def is_object_iff)
next
  case True
  have tv: "\<And>t. t \<in> set MessageType_values \<Longrightarrow> truthy t"
    by (auto simp: MessageType_values_def)
  from True have "truthy msg" "typeof msg = Type_object" by (simp_all add: is_object_iff)
  then show ?thesis
    using True tv[of "field msg ''type''"]
    by (auto simp: validateMessage_def getProp_truthy MessageType_values_def)
qed

lemma validateMessage_returns: "\<exists>r. validateMessage v = Inr r"
  by (simp add: validateMessage_eq validateInput_eq validateStateUpdate_eq validateGameOver_eq
      validatePlayerReady_eq Let_def)

lemma accepted_iff: "accepted v = well_formed v"
proof (cases "is_object v")
  case False
  then show ?thesis by (simp add: accepted_def validateMessage_eq well_formed_def)
next
  case True
  show ?thesis
  proof (cases "field v ''type'' \<in> set MessageType_values \<and> typeof (field v ''timestamp'') = Type_number")
    case False
    with True show ?thesis by (auto simp: accepted_def validateMessage_eq well_formed_def)
  next
    case ok: True
    have inp: "\<not> truthy d \<Longrightarrow> typeof (field d ''left'') \<noteq> Type_boolean" for d
      by (simp add: field_falsy)
    from ok have "field v ''type'' \<in> {JStr ''INPUT'', JStr ''STATE_UPDATE'', JStr ''SYNC'', JStr ''GAME_OVER'',
      JStr ''PLAYER_READY'', JStr ''START_GAME''}"
      by (simp add: MessageType_values_def)
    then consider "field v ''type'' = JStr ''INPUT''" | "field v ''type'' = JStr ''STATE_UPDATE''"
      | "field v ''type'' = JStr ''SYNC''" | "field v ''type'' = JStr ''GAME_OVER''"
      | "field v ''type'' = JStr ''PLAYER_READY''" | "field v ''type'' = JStr ''START_GAME''"
      by blast
    then show ?thesis
    proof cases
      case 1
      with True ok inp[of "field v ''data''"] show ?thesis
        by (auto simp: accepted_def validateMessage_eq well_formed_def validateInput_eq Let_def)
    next
      case 2
      with True ok show ?thesis
        by (auto simp: accepted_def validateMessage_eq well_formed_def validateStateUpdate_eq Let_def is_object_iff)
    next
      case 3
      with True ok show ?thesis
        by (simp add: accepted_def validateMessage_eq well_formed_def)
    next
      case 4
      with True ok show ?thesis
        by (simp add: accepted_def validateMessage_eq well_formed_def validateGameOver_eq)
    next
      case 5
      with True ok show ?thesis
        by (simp add: accepted_def validateMessage_eq well_formed_def validatePlayerReady_eq)
    next
      case 6
      with True ok show ?thesis
        by (simp add: accepted_def validateMessage_eq well_formed_def)
    qed
  qed
qed

lemma validateMessage_js_message: "validateMessage (js_message m) = Inr (JBool True)"
  by (cases m)
     (simp_all add: validateMessage_eq is_object_def field_def MessageType_values_def
       validateInput_eq validateStateUpdate_eq validateGameOver_eq validatePlayerReady_eq
       js_GameState_def Let_def)

text \<open>
  Claim C3: \<open>validateMessage\<close> accepts the object of every message of the six
  variants; it never throws (it returns for every value); and the values it accepts are
  exactly the well-formed ones: every value that is not an object, has a missing or
  unrecognised type tag, a timestamp that is not a number, or a required field of its
  declared type missing or of the wrong type, gets a falsy result.
\<close>

theorem validateMessage_contract:
  "validateMessage (js_message m) = Inr (JBool True) \<and>
   (\<exists>r. validateMessage v = Inr r) \<and>
   (accepted v \<longleftrightarrow> well_formed v)"
  using validateMessage_js_message validateMessage_returns accepted_iff by blast

theorem validateMessage_contract_witness:
  "\<not> accepted scenario_C \<and>
   validateMessage scenario_C = Inr (JBool False) \<and>
   accepted (JObj [(''type'', JStr ''PLAYER_READY''), (''playerName'', JStr ''Player 2''),
                   (''timestamp'', JNum 1000)]) \<and>
   \<not> accepted (JObj [(''type'', JStr ''PLAYER_READY''), (''playerName'', JNum 2),
                     (''timestamp'', JNum 1000)]) \<and>
   validateMessage (js_message (StartGameMessage 1000)) = Inr (JBool True)"
proof -
  have wf: "\<not> well_formed scenario_C"
    "well_formed (JObj [(''type'', JStr ''PLAYER_READY''), (''playerName'', JStr ''Player 2''),
                        (''timestamp'', JNum 1000)])"
    "\<not> well_formed (JObj [(''type'', JStr ''PLAYER_READY''), (''playerName'', JNum 2),
                          (''timestamp'', JNum 1000)])"
    by (simp_all add: well_formed_def scenario_C_def field_def is_object_def MessageType_values_def)
  have r: "validateMessage scenario_C = Inr (JBool False)"
    by (simp add: validateMessage_def scenario_C_def MessageType_values_def)
  from wf r
    validateMessage_contract[of "StartGameMessage 1000" scenario_C]
    validateMessage_contract[of "StartGameMessage 1000"
      "JObj [(''type'', JStr ''PLAYER_READY''), (''playerName'', JStr ''Player 2''),
             (''timestamp'', JNum 1000)]"]
    validateMessage_contract[of "StartGameMessage 1000"
      "JObj [(''type'', JStr ''PLAYER_READY''), (''playerName'', JNum 2),
             (''timestamp'', JNum 1000)]"]
  show ?thesis by blast
qed

section \<open>Properties of the connection manager\<close>

subsection \<open>The arithmetic of the draw\<close>

text \<open>
  \<open>double_floor\<close> and \<open>below_one\<close> are the floor and the comparison with \<open>1\<close> of the
  value of a double.
\<close>

lemma double_value_neg:
  "exponent d < 0 \<Longrightarrow> double_value d = real (significand d) / 2 ^ nat (- exponent d)"
proof -
  assume e: "exponent d < 0"
  have "2 powr real_of_int (exponent d) = 1 / 2 ^ nat (- exponent d)"
    using e by (simp add: powr_real_of_int field_simps)
  then show ?thesis by (simp add: double_value_def)
qed

lemma double_value_nonneg:
  "0 \<le> exponent d \<Longrightarrow> double_value d = real (significand d) * 2 ^ nat (exponent d)"
  by (simp add: double_value_def powr_real_of_int)

lemma double_floor_value: "double_floor d = \<lfloor>double_value d\<rfloor>"
proof (cases "0 \<le> exponent d")
  case True
  have "\<lfloor>real (significand d) * 2 ^ nat (exponent d)\<rfloor> = int (significand d) * 2 ^ nat (exponent d)"
    by (metis (no_types) floor_of_int of_int_mult of_int_numeral of_int_of_nat_eq of_int_power)
  with True show ?thesis by (simp add: double_floor_def double_value_nonneg)
next
  case False
  then have e: "exponent d < 0" by simp
  have "\<lfloor>real (significand d) / 2 ^ nat (- exponent d)\<rfloor> = int (significand d div 2 ^ nat (- exponent d))"
    by (metis floor_divide_of_nat_eq of_nat_numeral of_nat_power)
  with e show ?thesis by (simp add: double_floor_def double_value_neg)
qed

lemma below_one_value: "below_one d \<longleftrightarrow> double_value d < 1"
proof (cases "exponent d < 0")
  case True
  define k where "k = nat (- exponent d)"
  have "real (significand d) / 2 ^ k < 1 \<longleftrightarrow> real (significand d) < 2 ^ k"
    by (simp add: divide_less_eq)
  also have "\<dots> \<longleftrightarrow> significand d < 2 ^ k"
    by (metis of_nat_less_iff of_nat_numeral of_nat_power)
  finally have "double_value d < 1 \<longleftrightarrow> significand d < 2 ^ k"
    using True by (simp add: double_value_neg k_def)
  moreover have "significand d = 0 \<Longrightarrow> significand d < 2 ^ k" by simp
  ultimately show ?thesis using True by (auto simp: below_one_def k_def)
next
  case False
  then have e: "0 \<le> exponent d" by simp
  have "real (significand d) * 2 ^ nat (exponent d) < 1 \<longleftrightarrow> significand d = 0"
  proof
    assume a: "real (significand d) * 2 ^ nat (exponent d) < 1"
    have "real (significand d * 2 ^ nat (exponent d)) < 1" using a by simp
    then have "significand d * 2 ^ nat (exponent d) = 0" by linarith
    then show "significand d = 0" by simp
  qed simp
  with e show ?thesis by (simp add: below_one_def double_value_nonneg)
qed

lemma bitlen_le_59: "p < 2 ^ 59 \<Longrightarrow> nat (bitlen (int p) - 53) \<le> 6"
proof (cases "p = 0")
  case True then show ?thesis by simp
next
  case False
  assume p: "p < 2 ^ 59"
  from False have "0 < int p" by simp
  from bitlen_bounds[OF this] have "(2::int) ^ nat (bitlen (int p) - 1) \<le> int p" by simp
  also have "int p < 2 ^ 59" using p by (metis of_nat_less_iff of_nat_numeral of_nat_power)
  finally have "(2::int) ^ nat (bitlen (int p) - 1) < 2 ^ 59" .
  then have "nat (bitlen (int p) - 1) < 59"
    by (rule power_less_imp_less_exp[rotated]) simp
  then show ?thesis by linarith
qed

lemma round_to_53_zero: "round_to_53 0 = (0, 0)"
  by (simp add: round_to_53_def)

lemma round_to_53_upper:
  assumes "round_to_53 p = (q, s)" and "p < 2 ^ 59"
  shows "q * 2 ^ s \<le> p + 32"
proof -
  define t where "t = nat (bitlen (int p) - 53)"
  have t6: "t \<le> 6" using assms(2) by (simp add: t_def bitlen_le_59)
  define q0 where "q0 = p div 2 ^ t"
  define r where "r = p mod 2 ^ t"
  define q1 where "q1 = (if 0 < t \<and> (2 ^ (t - 1) < r \<or> (r = 2 ^ (t - 1) \<and> odd q0)) then q0 + 1 else q0)"
  have pq: "p = q0 * 2 ^ t + r"
    using div_mult_mod_eq[of p "2 ^ t"] by (simp add: q0_def r_def)
  have half: "(2::nat) ^ (t - 1) \<le> 32"
  proof -
    have "(2::nat) ^ (t - 1) \<le> 2 ^ 5" using t6 by (intro power_increasing) auto
    then show ?thesis by simp
  qed
  have twice: "0 < t \<Longrightarrow> (2::nat) ^ t = 2 * 2 ^ (t - 1)"
    by (cases t) simp_all
  have q1b: "q1 * 2 ^ t \<le> p + 32"
  proof (cases "0 < t \<and> (2 ^ (t - 1) < r \<or> (r = 2 ^ (t - 1) \<and> odd q0))")
    case True
    then have "q1 = q0 + 1" by (simp add: q1_def)
    then have "q1 * 2 ^ t = q0 * 2 ^ t + 2 ^ t" by (simp add: algebra_simps)
    also have "\<dots> = q0 * 2 ^ t + 2 * 2 ^ (t - 1)" using True twice by simp
    also have "\<dots> \<le> q0 * 2 ^ t + r + 2 ^ (t - 1)" using True by auto
    also have "\<dots> \<le> p + 32" using pq half by simp
    finally show ?thesis .
  next
    case False
    then have "q1 = q0" by (auto simp: q1_def)
    then show ?thesis using pq by simp
  qed
  have eq: "round_to_53 p = (if q1 = 2 ^ 53 then (2 ^ 52, t + 1) else (q1, t))"
    by (simp only: round_to_53_def Let_def q1_def q0_def r_def t_def)
  have "q * 2 ^ s = q1 * 2 ^ t"
  proof (cases "q1 = 2 ^ 53")
    case True
    with eq assms(1) have "q = 2 ^ 52" "s = t + 1" by simp_all
    with True show ?thesis by simp
  next
    case False
    with eq assms(1) show ?thesis by simp
  qed
  with q1b show ?thesis by simp
qed

text \<open>
  \<open>round_to_53\<close> returns a significand of 53 bits and the nearest such multiple of
  \<open>2 ^ s\<close>: the error is at most half a unit of the last place.
\<close>

lemma below_bitlen: "p < 2 ^ (nat (bitlen (int p) - 53) + 53)"
proof (cases "p = 0")
  case True then show ?thesis by simp
next
  case False
  then have "0 < int p" by simp
  from bitlen_bounds[OF this] have "int p < 2 ^ nat (bitlen (int p))" by simp
  also have "(2::int) ^ nat (bitlen (int p)) \<le> 2 ^ (nat (bitlen (int p) - 53) + 53)"
    by (intro power_increasing) auto
  finally have "int p < int (2 ^ (nat (bitlen (int p) - 53) + 53))" by simp
  then show ?thesis by (simp only: of_nat_less_iff)
qed

lemma round_to_53_nearest:
  assumes "round_to_53 p = (q, s)"
  shows "q < 2 ^ 53 \<and> 2 * \<bar>int (q * 2 ^ s) - int p\<bar> \<le> 2 ^ s"
proof -
  define t where "t = nat (bitlen (int p) - 53)"
  define q0 where "q0 = p div 2 ^ t"
  define r where "r = p mod 2 ^ t"
  define up where "up \<longleftrightarrow> 0 < t \<and> (2 ^ (t - 1) < r \<or> (r = 2 ^ (t - 1) \<and> odd q0))"
  define q1 where "q1 = (if up then q0 + 1 else q0)"
  have pq: "p = q0 * 2 ^ t + r"
    using div_mult_mod_eq[of p "2 ^ t"] by (simp add: q0_def r_def)
  have rt: "r < 2 ^ t" by (simp add: r_def)
  have "p < 2 ^ (t + 53)" unfolding t_def by (rule below_bitlen)
  then have "p < 2 ^ 53 * 2 ^ t" by (simp add: power_add mult.commute)
  then have q0b: "q0 < 2 ^ 53" unfolding q0_def by (rule less_mult_imp_div_less)
  have twice: "0 < t \<Longrightarrow> (2::nat) ^ t = 2 * 2 ^ (t - 1)"
    by (cases t) simp_all
  have near: "2 * \<bar>int (q1 * 2 ^ t) - int p\<bar> \<le> 2 ^ t"
  proof (cases up)
    case True
    then have t: "0 < t" and r: "2 ^ (t - 1) \<le> r" by (auto simp: up_def)
    have "int (q1 * 2 ^ t) - int p = int (2 ^ t) - int r"
      using True pq by (simp add: q1_def algebra_simps)
    moreover have "int r \<le> int (2 ^ t)" using rt by simp
    moreover have "2 * (int (2 ^ t) - int r) \<le> int (2 ^ t)"
      using r twice[OF t] by simp
    ultimately show ?thesis by simp
  next
    case False
    have "int (q1 * 2 ^ t) - int p = - int r"
      using False pq by (simp add: q1_def)
    moreover have "2 * r \<le> 2 ^ t"
    proof (cases "0 < t")
      case True
      with False have "r \<le> 2 ^ (t - 1)" by (auto simp: up_def)
      with twice[OF True] show ?thesis by simp
    next
      case False
      with rt show ?thesis by simp
    qed
    ultimately show ?thesis
      by (simp add: abs_if) (metis of_nat_le_iff of_nat_mult of_nat_numeral of_nat_power)
  qed
  have eq: "round_to_53 p = (if q1 = 2 ^ 53 then (2 ^ 52, t + 1) else (q1, t))"
    by (simp only: round_to_53_def Let_def q1_def up_def q0_def r_def t_def)
  show ?thesis
  proof (cases "q1 = 2 ^ 53")
    case True
    with eq assms have qs: "q = 2 ^ 52" "s = t + 1" by simp_all
    have same: "int (q * 2 ^ s) = int (q1 * 2 ^ t)" using True qs by simp
    have "(2::int) ^ t \<le> 2 ^ s" using qs by simp
    with near have "2 * \<bar>int (q1 * 2 ^ t) - int p\<bar> \<le> 2 ^ s" by (rule order_trans)
    then have "2 * \<bar>int (q * 2 ^ s) - int p\<bar> \<le> 2 ^ s" by (simp only: same)
    moreover have "q < 2 ^ 53" using qs by simp
    ultimately show ?thesis by (rule conjI[rotated])
  next
    case False
    with eq assms have qs: "q = q1" "s = t" by simp_all
    have "q1 \<le> 2 ^ 53" using q0b by (simp add: q1_def)
    with False have "q1 < 2 ^ 53" by simp
    with qs near show ?thesis by simp
  qed
qed

text \<open>
  The rounded product of 36 and a double below 1 is below 36: rounding moves the exact
  product by at most 32 units of the draw's last place, and 36 is at least 36 units
  above it.
\<close>

lemma index_below_36:
  assumes "is_double d" and "below_one d"
  shows "0 \<le> double_floor (double_times d 36) \<and> double_floor (double_times d 36) < 36"
proof -
  have nonneg: "0 \<le> double_floor (double_times d 36)"
    by (simp add: double_floor_def)
  have "double_floor (double_times d 36) < 36"
  proof (cases "significand d = 0")
    case True
    then show ?thesis
      by (simp add: double_times_def round_to_53_zero double_floor_def)
  next
    case False
    with assms(2) have e: "exponent d < 0" and mk: "significand d < 2 ^ nat (- exponent d)"
      by (simp_all add: below_one_def)
    define k where "k = nat (- exponent d)"
    define m where "m = significand d"
    have ek: "exponent d = - int k" using e by (simp add: k_def)
    have mk': "m < 2 ^ k" using mk by (simp add: k_def m_def)
    obtain q s where qs: "round_to_53 (m * 36) = (q, s)" by (cases "round_to_53 (m * 36)")
    have "m < 2 ^ 53" using assms(1) by (simp add: is_double_def m_def)
    then have "m * 36 < 2 ^ 59" by simp
    then have "q * 2 ^ s \<le> m * 36 + 32" by (rule round_to_53_upper[OF qs])
    also have "m * 36 + 32 < 36 * 2 ^ k"
    proof -
      from mk' have "m + 1 \<le> 2 ^ k" by simp
      then have "(m + 1) * 36 \<le> 2 ^ k * 36" by (rule mult_le_mono1)
      then show ?thesis by (simp add: algebra_simps)
    qed
    finally have bound: "q * 2 ^ s < 36 * 2 ^ k" .
    have dt: "double_times d 36 = \<lparr>significand = q, exponent = int s - int k\<rparr>"
      by (simp add: double_times_def qs ek flip: m_def)
    show ?thesis
    proof (cases "k \<le> s")
      case True
      then have "(2::nat) ^ (s - k) * 2 ^ k = 2 ^ s"
        by (simp flip: power_add)
      then have "(q * 2 ^ (s - k)) * 2 ^ k = q * 2 ^ s"
        by (simp only: mult.assoc)
      with bound have "(q * 2 ^ (s - k)) * 2 ^ k < 36 * 2 ^ k" by (simp only:)
      then have "q * 2 ^ (s - k) < 36" by (simp only: mult_less_cancel2)
      then have "int q * 2 ^ (s - k) < 36"
        by (metis (no_types) of_nat_less_iff of_nat_mult of_nat_numeral of_nat_power)
      moreover have "nat (int s - int k) = s - k" by simp
      ultimately show ?thesis using True by (simp add: dt double_floor_def)
    next
      case False
      then have sk: "s < k" by simp
      then have "(2::nat) ^ (k - s) * 2 ^ s = 2 ^ k"
        by (simp flip: power_add)
      then have "(36 * 2 ^ (k - s)) * 2 ^ s = 36 * (2::nat) ^ k"
        by (simp only: mult.assoc)
      with bound have "q * 2 ^ s < (36 * 2 ^ (k - s)) * 2 ^ s" by (simp only:)
      then have "q < 36 * 2 ^ (k - s)" by (simp only: mult_less_cancel2)
      then have "q div 2 ^ (k - s) < 36"
        by (simp add: less_mult_imp_div_less)
      moreover have "nat (- (int s - int k)) = k - s" by simp
      ultimately show ?thesis using sk by (simp add: dt double_floor_def)
    qed
  qed
  with nonneg show ?thesis by simp
qed

subsection \<open>Room codes\<close>

lemma chars_alphabet: "c \<in> set chars \<Longrightarrow> is_upper c \<or> is_digit c"
  by (auto simp: chars_def is_upper_def is_digit_def)

lemma charAt_chars:
  assumes "is_double d" and "double_value d < 1"
  shows "\<exists>c \<in> set chars. charAt chars (double_floor (double_times d (length chars))) = [c]"
proof -
  have len: "length chars = 36" by (simp add: chars_def)
  from assms(2) have "below_one d" by (simp add: below_one_value)
  from index_below_36[OF assms(1) this]
  have lo: "0 \<le> double_floor (double_times d 36)" and hi: "double_floor (double_times d 36) < 36"
    by simp_all
  from lo hi have "nat (double_floor (double_times d 36)) < length chars" by (simp add: len)
  then have "chars ! nat (double_floor (double_times d 36)) \<in> set chars" by (rule nth_mem)
  with lo hi show ?thesis by (simp add: charAt_def len)
qed

lemma generateRoomCode_loop_inv:
  assumes "\<forall>k<6. is_double (random k) \<and> double_value (random k) < 1" and "i \<le> 6"
  shows "length (generateRoomCode_loop random i code) = length code + (6 - i) \<and>
         set (generateRoomCode_loop random i code) \<subseteq> set code \<union> set chars"
  using assms
proof (induction random i code rule: generateRoomCode_loop.induct)
  case (1 random i code)
  show ?case
  proof (cases "i < 6")
    case True
    with "1.prems" obtain c where c: "c \<in> set chars"
      "charAt chars (double_floor (double_times (random i) (length chars))) = [c]"
      using charAt_chars[of "random i"] by blast
    from True have "Suc i \<le> 6" by simp
    from "1.IH"[OF True "1.prems"(1) this] c True
    show ?thesis
      by (subst (1 2) generateRoomCode_loop.simps) auto
  next
    case False
    with "1.prems" have "i = 6" by simp
    then show ?thesis by (subst (1 2) generateRoomCode_loop.simps) simp
  qed
qed

text \<open>
  Claim C7: whenever \<open>Math.random()\<close> keeps its contract (at each of the six draws a
  double whose value is in \<open>[0, 1)\<close>), \<open>generateRoomCode\<close> returns a string of exactly 6
  characters, each of them one of \<open>chars\<close>, an upper-case letter or a digit.  The index
  of each character is the floor of the rounded product, as the program computes it.
\<close>

theorem generateRoomCode_six_alnum:
  assumes "\<forall>k<6. is_double (random k) \<and> double_value (random k) < 1"
  shows "length (generateRoomCode random) = 6 \<and>
         (\<forall>c \<in> set (generateRoomCode random). c \<in> set chars \<and> (is_upper c \<or> is_digit c))"
  using generateRoomCode_loop_inv[OF assms, of 0 "[]"] chars_alphabet
  by (auto simp: generateRoomCode_def)

text \<open>
  The draw \<open>8756999275442631 \<times> 2 ^ - 53\<close> is below 1; its exact product with 36 lies
  below 35 and is rounded to 35: the index is 35, the last of \<open>chars\<close>, where the
  floor of the exact product is 34.
\<close>

lemma length_chars: "length chars = 36"
  by (simp add: chars_def)

lemma generateRoomCode_loop_36:
  "generateRoomCode_loop random i code =
     (if i < 6
      then generateRoomCode_loop random (Suc i)
             (code @ charAt chars (double_floor (double_times (random i) 36)))
      else code)"
  by (subst generateRoomCode_loop.simps) (simp only: length_chars)

lemma double_carry_times:
  "double_times double_carry 36 = \<lparr>significand = 35 * 2 ^ 47, exponent = - 47\<rparr>"
  by (simp add: double_carry_def double_times_def round_to_53_def Let_def compute_bitlen)

lemma double_carry_index: "double_floor (double_times double_carry 36) = 35"
  by (simp add: double_carry_times double_floor_def)

lemma double_carry_exact: "\<lfloor>double_value double_carry * 36\<rfloor> = 34"
proof -
  have v: "double_value double_carry = 8756999275442631 / 9007199254740992"
    by (simp add: double_value_neg double_carry_def)
  show ?thesis unfolding v by (rule floor_unique) simp_all
qed

lemma double_half_index: "double_floor (double_times double_half 36) = 18"
  by (simp add: double_half_def double_times_def round_to_53_def Let_def compute_bitlen
      double_floor_def)

lemma double_zero_index: "double_floor (double_times double_zero 36) = 0"
  by (simp add: double_zero_def double_times_def round_to_53_def Let_def compute_bitlen
      double_floor_def)

lemma generateRoomCode_carry: "generateRoomCode (\<lambda>i. double_carry) = ''999999''"
  by (simp add: generateRoomCode_def generateRoomCode_loop_36 double_carry_index charAt_def
      chars_def)

lemma generateRoomCode_half: "generateRoomCode (\<lambda>i. double_half) = ''SSSSSS''"
  by (simp add: generateRoomCode_def generateRoomCode_loop_36 double_half_index charAt_def
      chars_def)

lemma generateRoomCode_zero: "generateRoomCode (\<lambda>i. double_zero) = ''AAAAAA''"
  by (simp add: generateRoomCode_def generateRoomCode_loop_36 double_zero_index charAt_def
      chars_def)

theorem generateRoomCode_six_alnum_witness:
  "is_double double_carry \<and> double_value double_carry < 1 \<and>
   length (generateRoomCode (\<lambda>i. double_carry)) = 6 \<and>
   set (generateRoomCode (\<lambda>i. double_carry)) \<subseteq> set chars \<and>
   generateRoomCode (\<lambda>i. double_carry) = ''999999''"
proof -
  have d: "is_double double_carry" by (simp add: is_double_def double_carry_def)
  have "below_one double_carry" by (simp add: below_one_def double_carry_def)
  then have v: "double_value double_carry < 1" by (simp add: below_one_value)
  from d v have h: "\<forall>k<6. is_double double_carry \<and> double_value double_carry < 1" by simp
  from generateRoomCode_six_alnum[of "\<lambda>i. double_carry", OF h] generateRoomCode_carry d v
  show ?thesis by auto
qed


lemma js_string_ab12c9: "js_string ''ab12c9'' = [97, 98, 49, 50, 99, 57]"
  by (simp add: js_string_def)

lemma js_string_AB12C9: "js_string ''AB12C9'' = [65, 66, 49, 50, 67, 57]"
  by (simp add: js_string_def)

lemma upper_ab12c9: "toUpperCase table (js_string ''ab12c9'') = js_string ''AB12C9''"
  by (simp add: js_string_ab12c9 js_string_AB12C9 toUpperCase_def)





subsection \<open>send\<close>

lemma send_cases:
  "send env nm message =
     Inr (if channel_open nm
          then if env_sendThrows env
               then nm\<lparr>nm_console := nm_console nm @ [Console_error ''Failed to send message:'']\<rparr>
               else nm\<lparr>nm_transmitted := nm_transmitted nm @ [message]\<rparr>
          else nm\<lparr>nm_console := nm_console nm @ [Console_warn ''Cannot send message: connection not open'']\<rparr>)"
  by (simp add: send_def channel_open_def connection_send_def console_warn_def console_error_def
      split: option.splits)

lemma host_after_peer_error_eq:
  "host_after_peer_error =
     \<lparr>nm_peer = Some \<lparr>peer_id = Some (js_string ''AAAAAA'')\<rparr>,
      nm_connection = Some \<lparr>conn_peer = js_string ''guest'', conn_open = True\<rparr>,
      nm_isHost = True, nm_roomCode = js_string ''AAAAAA'', nm_status = Status_error, nm_latency = 0,
      nm_lastPingTime = 0, nm_pinging = True, nm_transmitted = [],
      nm_console = [Console_error ''Peer error:'']\<rparr>"
  by (simp add: host_after_peer_error_def peer_on_error_def connection_on_open_def
      createRoom_on_connection_def createRoom_def NetworkManager_new_def updateStatus_def
      console_error_def generateRoomCode_zero)

text \<open>
  Claim C6, as amended: \<open>send\<close> never raises; it hands the message to the transport
  exactly when there is a connection whose channel reports open (the status is not
  consulted) and the transport takes it; with no open channel the message is dropped
  with a warning, and a message the transport refuses is dropped with an error entry.
  In every case nothing but the trace of transmitted messages or the console changes:
  the manager keeps no queue and does not try again.
\<close>

theorem send_gate:
  "\<exists>nm'. send env nm message = Inr nm' \<and>
     (channel_open nm \<and> \<not> env_sendThrows env \<longrightarrow>
        nm' = nm\<lparr>nm_transmitted := nm_transmitted nm @ [message]\<rparr>) \<and>
     (channel_open nm \<and> env_sendThrows env \<longrightarrow>
        nm' = nm\<lparr>nm_console := nm_console nm @ [Console_error ''Failed to send message:'']\<rparr>) \<and>
     (\<not> channel_open nm \<longrightarrow>
        nm' = nm\<lparr>nm_console :=
                   nm_console nm @ [Console_warn ''Cannot send message: connection not open'']\<rparr>)"
  by (simp add: send_cases)

theorem send_gate_witness:
  "channel_open host_after_peer_error \<and> \<not> env_sendThrows env0 \<and>
   \<not> channel_open NetworkManager_new \<and>
   send env0 NetworkManager_new (SyncMessage 1000) =
     Inr (NetworkManager_new\<lparr>nm_console := [Console_warn ''Cannot send message: connection not open'']\<rparr>) \<and>
   nm_status NetworkManager_new = Status_disconnected"
proof -
  have a: "channel_open host_after_peer_error" "\<not> env_sendThrows env0" "\<not> channel_open NetworkManager_new"
    "nm_status NetworkManager_new = Status_disconnected" "nm_console NetworkManager_new = []"
    by (simp_all add: host_after_peer_error_eq channel_open_def env0_def NetworkManager_new_def)
  from send_gate[of env0 NetworkManager_new "SyncMessage 1000"] a show ?thesis by auto
qed

text \<open>
  Claim C6 as stated fails: it lets \<open>send\<close> transmit only while the status is
  \<open>connected\<close>.  After the \<open>error\<close> event of the host's peer the status is \<open>error\<close>,
  the channel is still open, and \<open>send\<close> transmits.
\<close>

theorem send_while_status_error:
  "nm_status host_after_peer_error = Status_error \<and>
   send env0 host_after_peer_error (SyncMessage 1000) =
     Inr (host_after_peer_error\<lparr>nm_transmitted := [SyncMessage 1000]\<rparr>)"
  by (simp add: host_after_peer_error_eq send_cases channel_open_def env0_def)

section \<open>Properties of the lobby\<close>

lemma length_toLowerCase [simp]: "length (toLowerCase s) = length s"
  by (simp add: toLowerCase_def)

lemma send_obs:
  "\<exists>nm'. send env nm message = Inr nm' \<and>
     nm_isHost nm' = nm_isHost nm \<and> nm_connection nm' = nm_connection nm \<and>
     nm_status nm' = nm_status nm \<and>
     nm_transmitted nm' =
       nm_transmitted nm @ (if channel_open nm \<and> \<not> env_sendThrows env then [message] else [])"
  by (simp add: send_cases)

lemma checkBothReady_obs:
  "\<exists>l'. checkBothReady env l = Inr l' \<and>
     lobby_isReady l' = lobby_isReady l \<and> lobby_remoteReady l' = lobby_remoteReady l \<and>
     lobby_mode l' = lobby_mode l \<and>
     nm_isHost (lobby_networkManager l') = nm_isHost (lobby_networkManager l) \<and>
     lobby_gameStarts l' =
       (if lobby_isReady l \<and> lobby_remoteReady l \<and> nm_isHost (lobby_networkManager l)
        then Suc (lobby_gameStarts l) else lobby_gameStarts l) \<and>
     nm_transmitted (lobby_networkManager l') =
       nm_transmitted (lobby_networkManager l) @
         (if lobby_isReady l \<and> lobby_remoteReady l \<and> nm_isHost (lobby_networkManager l) \<and>
             channel_open (lobby_networkManager l) \<and> \<not> env_sendThrows env
          then [StartGameMessage (env_now env)] else [])"
  by (simp add: checkBothReady_def send_cases isHostPlayer_def startGame_def)

lemma onMessage_obs:
  "\<exists>l'. onMessage env l message = Inr l' \<and>
     lobby_isReady l' = lobby_isReady l \<and>
     lobby_remoteReady l' = (lobby_remoteReady l \<or> (\<exists>n ts. message = PlayerReadyMessage n ts)) \<and>
     nm_isHost (lobby_networkManager l') = nm_isHost (lobby_networkManager l) \<and>
     lobby_gameStarts l' =
       (if (\<exists>ts. message = StartGameMessage ts) \<or>
           ((\<exists>n ts. message = PlayerReadyMessage n ts) \<and> lobby_isReady l \<and>
            nm_isHost (lobby_networkManager l))
        then Suc (lobby_gameStarts l) else lobby_gameStarts l) \<and>
     nm_transmitted (lobby_networkManager l') =
       nm_transmitted (lobby_networkManager l) @
         (if (\<exists>n ts. message = PlayerReadyMessage n ts) \<and> lobby_isReady l \<and>
             nm_isHost (lobby_networkManager l) \<and>
             channel_open (lobby_networkManager l) \<and> \<not> env_sendThrows env
          then [StartGameMessage (env_now env)] else [])"
proof (cases message)
  case (PlayerReadyMessage n ts)
  from checkBothReady_obs[of env "l\<lparr>lobby_remoteReady := True, lobby_status := ''Other player is ready!''\<rparr>"]
  show ?thesis by (auto simp: onMessage_def PlayerReadyMessage)
qed (simp_all add: onMessage_def startGame_def)

lemma readyKey_obs:
  "\<exists>l'. readyKey env l key = Inr l' \<and>
     lobby_isReady l' = (lobby_isReady l \<or> toLowerCase key = ''r'') \<and>
     lobby_remoteReady l' = lobby_remoteReady l \<and>
     lobby_mode l' = lobby_mode l \<and>
     nm_isHost (lobby_networkManager l') = nm_isHost (lobby_networkManager l) \<and>
     lobby_gameStarts l' =
       (if toLowerCase key = ''r'' \<and> \<not> lobby_isReady l \<and> lobby_remoteReady l \<and>
           nm_isHost (lobby_networkManager l)
        then Suc (lobby_gameStarts l) else lobby_gameStarts l) \<and>
     nm_transmitted (lobby_networkManager l') =
       nm_transmitted (lobby_networkManager l) @
         (if toLowerCase key = ''r'' \<and> \<not> lobby_isReady l \<and>
             channel_open (lobby_networkManager l) \<and> \<not> env_sendThrows env
          then PlayerReadyMessage
                 (if nm_isHost (lobby_networkManager l) then ''Player 1'' else ''Player 2'')
                 (env_now env) #
               (if lobby_remoteReady l \<and> nm_isHost (lobby_networkManager l)
                then [StartGameMessage (env_now env)] else [])
          else [])"
proof (cases "toLowerCase key = ''r'' \<and> \<not> lobby_isReady l")
  case False
  then show ?thesis by (auto simp: readyKey_def)
next
  case True
  obtain nm' where nm': "send env (lobby_networkManager l)
      (PlayerReadyMessage (if isHostPlayer (lobby_networkManager l) then ''Player 1'' else ''Player 2'')
         (env_now env)) = Inr nm'"
    "nm_isHost nm' = nm_isHost (lobby_networkManager l)"
    "nm_connection nm' = nm_connection (lobby_networkManager l)"
    "nm_transmitted nm' = nm_transmitted (lobby_networkManager l) @
       (if channel_open (lobby_networkManager l) \<and> \<not> env_sendThrows env
        then [PlayerReadyMessage (if isHostPlayer (lobby_networkManager l) then ''Player 1'' else ''Player 2'')
           (env_now env)] else [])"
    using send_obs by blast
  have co: "channel_open nm' = channel_open (lobby_networkManager l)"
    by (simp add: channel_open_def nm'(3))
  from checkBothReady_obs[of env "l\<lparr>lobby_isReady := True, lobby_networkManager := nm',
        lobby_status := ''You are ready! Waiting for other player...''\<rparr>"]
  show ?thesis
    using True nm' co by (auto simp: readyKey_def isHostPlayer_def)
qed

lemma escapeKey_obs:
  "nm_transmitted (lobby_networkManager (escapeKey l key)) = nm_transmitted (lobby_networkManager l) \<and>
   lobby_gameStarts (escapeKey l key) = lobby_gameStarts l \<and>
   (key \<noteq> ''Escape'' \<longrightarrow> escapeKey l key = l)"
  by (simp add: escapeKey_def withNetworkManager_def updateStatusMessage_def disconnect_def
      updateStatus_def split: ConnectionStatus.splits)

lemma withNetworkManager_obs [simp]:
  "lobby_networkManager (withNetworkManager l nm) = nm"
  "lobby_gameStarts (withNetworkManager l nm) = lobby_gameStarts l"
  "lobby_isReady (withNetworkManager l nm) = lobby_isReady l"
  "lobby_remoteReady (withNetworkManager l nm) = lobby_remoteReady l"
  by (simp_all add: withNetworkManager_def updateStatusMessage_def split: ConnectionStatus.splits)

lemma createRoom_transmitted [simp]: "nm_transmitted (createRoom env nm) = nm_transmitted nm"
  by (simp add: createRoom_def updateStatus_def console_error_def Let_def)

lemma joinRoom_transmitted [simp]: "nm_transmitted (joinRoom env nm code) = nm_transmitted nm"
  by (simp add: joinRoom_def updateStatus_def console_error_def Let_def)

lemma keydown_obs:
  "\<exists>l'. keydown env l key = Inr l' \<and>
     lobby_gameStarts l' =
       (if lobby_mode l = Mode_create \<and> isConnected (lobby_networkManager l) \<and>
           toLowerCase key = ''r'' \<and> \<not> lobby_isReady l \<and> lobby_remoteReady l \<and>
           nm_isHost (lobby_networkManager l)
        then Suc (lobby_gameStarts l) else lobby_gameStarts l) \<and>
     nm_transmitted (lobby_networkManager l') =
       nm_transmitted (lobby_networkManager l) @
         (if lobby_mode l = Mode_create \<and> isConnected (lobby_networkManager l) \<and>
             toLowerCase key = ''r'' \<and> \<not> lobby_isReady l \<and> \<not> env_sendThrows env
          then PlayerReadyMessage
                 (if nm_isHost (lobby_networkManager l) then ''Player 1'' else ''Player 2'')
                 (env_now env) #
               (if lobby_remoteReady l \<and> nm_isHost (lobby_networkManager l)
                then [StartGameMessage (env_now env)] else [])
          else []) \<and>
     (lobby_mode l = Mode_create \<and> isConnected (lobby_networkManager l) \<and>
        toLowerCase key = ''r'' \<longrightarrow>
        lobby_isReady l' \<and> lobby_remoteReady l' = lobby_remoteReady l)"
proof (cases "lobby_mode l = Mode_create \<and> isConnected (lobby_networkManager l)")
  case True
  then have co: "channel_open (lobby_networkManager l)"
    by (simp add: isConnected_def channel_open_def)
  obtain l1 where l1: "readyKey env l key = Inr l1"
     "lobby_isReady l1 = (lobby_isReady l \<or> toLowerCase key = ''r'')"
     "lobby_remoteReady l1 = lobby_remoteReady l"
     "lobby_gameStarts l1 =
       (if toLowerCase key = ''r'' \<and> \<not> lobby_isReady l \<and> lobby_remoteReady l \<and>
           nm_isHost (lobby_networkManager l)
        then Suc (lobby_gameStarts l) else lobby_gameStarts l)"
     "nm_transmitted (lobby_networkManager l1) =
       nm_transmitted (lobby_networkManager l) @
         (if toLowerCase key = ''r'' \<and> \<not> lobby_isReady l \<and>
             channel_open (lobby_networkManager l) \<and> \<not> env_sendThrows env
          then PlayerReadyMessage
                 (if nm_isHost (lobby_networkManager l) then ''Player 1'' else ''Player 2'')
                 (env_now env) #
               (if lobby_remoteReady l \<and> nm_isHost (lobby_networkManager l)
                then [StartGameMessage (env_now env)] else [])
          else [])"
    using readyKey_obs[of env l key] by blast
  have kd: "keydown env l key = Inr (escapeKey l1 key)"
    using True l1(1) by (simp add: keydown_def)
  have ne: "toLowerCase key = ''r'' \<Longrightarrow> key \<noteq> ''Escape''"
    using length_toLowerCase[of key] by auto
  show ?thesis
    using True co l1 escapeKey_obs[of l1 key] ne
    by (auto simp: kd)
next
  case False
  have "\<exists>l1. keydown env l key = Inr (escapeKey l1 key) \<and>
          nm_transmitted (lobby_networkManager l1) = nm_transmitted (lobby_networkManager l) \<and>
          lobby_gameStarts l1 = lobby_gameStarts l"
    using False by (cases "lobby_mode l") (auto simp: keydown_def)
  then show ?thesis
    using False escapeKey_obs by auto
qed

lemma step_key:
  "\<exists>l'. lobby_step env l (Key key) = Inr l' \<and>
     lobby_gameStarts l' =
       (if runs_checkBothReady l (Key key) \<and> lobby_remoteReady l \<and> nm_isHost (lobby_networkManager l)
        then Suc (lobby_gameStarts l) else lobby_gameStarts l) \<and>
     newly_transmitted l l' =
         (if runs_checkBothReady l (Key key) \<and> \<not> env_sendThrows env
          then PlayerReadyMessage
                 (if nm_isHost (lobby_networkManager l) then ''Player 1'' else ''Player 2'')
                 (env_now env) #
               (if lobby_remoteReady l \<and> nm_isHost (lobby_networkManager l)
                then [StartGameMessage (env_now env)] else [])
          else []) \<and>
     (runs_checkBothReady l (Key key) \<longrightarrow>
        lobby_isReady l' \<and> lobby_remoteReady l' = lobby_remoteReady l \<and>
        channel_open (lobby_networkManager l))"
proof -
  have co: "isConnected (lobby_networkManager l) \<Longrightarrow> channel_open (lobby_networkManager l)"
    by (simp add: isConnected_def channel_open_def)
  from keydown_obs[of env l key] obtain l' where l': "keydown env l key = Inr l'"
     "lobby_gameStarts l' =
       (if lobby_mode l = Mode_create \<and> isConnected (lobby_networkManager l) \<and>
           toLowerCase key = ''r'' \<and> \<not> lobby_isReady l \<and> lobby_remoteReady l \<and>
           nm_isHost (lobby_networkManager l)
        then Suc (lobby_gameStarts l) else lobby_gameStarts l)"
     "nm_transmitted (lobby_networkManager l') =
       nm_transmitted (lobby_networkManager l) @
         (if lobby_mode l = Mode_create \<and> isConnected (lobby_networkManager l) \<and>
             toLowerCase key = ''r'' \<and> \<not> lobby_isReady l \<and> \<not> env_sendThrows env
          then PlayerReadyMessage
                 (if nm_isHost (lobby_networkManager l) then ''Player 1'' else ''Player 2'')
                 (env_now env) #
               (if lobby_remoteReady l \<and> nm_isHost (lobby_networkManager l)
                then [StartGameMessage (env_now env)] else [])
          else [])"
     "lobby_mode l = Mode_create \<and> isConnected (lobby_networkManager l) \<and>
        toLowerCase key = ''r'' \<longrightarrow>
        lobby_isReady l' \<and> lobby_remoteReady l' = lobby_remoteReady l"
    by blast
  have r: "runs_checkBothReady l (Key key) =
      (lobby_mode l = Mode_create \<and> isConnected (lobby_networkManager l) \<and>
       toLowerCase key = ''r'' \<and> \<not> lobby_isReady l)"
    by (simp add: runs_checkBothReady_def)
  have 1: "lobby_step env l (Key key) = Inr l'" by (simp add: lobby_step_def l'(1))
  have 2: "lobby_gameStarts l' =
       (if runs_checkBothReady l (Key key) \<and> lobby_remoteReady l \<and> nm_isHost (lobby_networkManager l)
        then Suc (lobby_gameStarts l) else lobby_gameStarts l)"
    unfolding r l'(2) by simp
  have 3: "newly_transmitted l l' =
         (if runs_checkBothReady l (Key key) \<and> \<not> env_sendThrows env
          then PlayerReadyMessage
                 (if nm_isHost (lobby_networkManager l) then ''Player 1'' else ''Player 2'')
                 (env_now env) #
               (if lobby_remoteReady l \<and> nm_isHost (lobby_networkManager l)
                then [StartGameMessage (env_now env)] else [])
          else [])"
    unfolding r newly_transmitted_def l'(3) by simp
  have 4: "runs_checkBothReady l (Key key) \<longrightarrow>
        lobby_isReady l' \<and> lobby_remoteReady l' = lobby_remoteReady l \<and>
        channel_open (lobby_networkManager l)"
    using l'(4) co unfolding r by blast
  from 1 2 3 4 show ?thesis by blast
qed


lemma step_received:
  "\<exists>l'. lobby_step env l (Received message) = Inr l' \<and>
     lobby_isReady l' = lobby_isReady l \<and>
     lobby_remoteReady l' =
       (lobby_remoteReady l \<or> runs_checkBothReady l (Received message)) \<and>
     lobby_gameStarts l' =
       (if (\<exists>ts. message = StartGameMessage ts) \<or>
           (runs_checkBothReady l (Received message) \<and> lobby_isReady l \<and>
            nm_isHost (lobby_networkManager l))
        then Suc (lobby_gameStarts l) else lobby_gameStarts l) \<and>
     newly_transmitted l l' =
         (if runs_checkBothReady l (Received message) \<and> lobby_isReady l \<and>
             nm_isHost (lobby_networkManager l) \<and>
             channel_open (lobby_networkManager l) \<and> \<not> env_sendThrows env
          then [StartGameMessage (env_now env)] else [])"
proof -
  have r: "runs_checkBothReady l (Received message) = (\<exists>n ts. message = PlayerReadyMessage n ts)"
    by (cases message) (simp_all add: runs_checkBothReady_def)
  from onMessage_obs[of env l message] show ?thesis
    unfolding r newly_transmitted_def lobby_step_def by auto
qed

lemma step_input:
  "\<exists>l'. lobby_step env l (Input key) = Inr l' \<and>
     lobby_gameStarts l' = lobby_gameStarts l \<and> newly_transmitted l l' = []"
proof -
  have "nm_transmitted (lobby_networkManager (handleInput env l key)) =
          nm_transmitted (lobby_networkManager l) \<and>
        lobby_gameStarts (handleInput env l key) = lobby_gameStarts l"
    using escapeKey_obs by (auto simp: handleInput_def)
  then show ?thesis by (simp add: lobby_step_def newly_transmitted_def)
qed

lemma is_StartGame_simps [simp]:
  "is_StartGame (StartGameMessage ts)"
  "\<not> is_StartGame (PlayerReadyMessage n ts)"
  by (simp_all add: is_StartGame_def)

text \<open>
  Claim C4: \<open>checkBothReady\<close> hands a \<open>START_GAME\<close> message to \<open>send\<close> (and starts
  the game) if and only if the peer is the host and both ready flags are set.  In every
  step of the lobby, a \<open>START_GAME\<close> message goes out only from a host with both flags
  set; and a peer that is not the host starts the game in a step exactly when the step
  is the receipt of \<open>START_GAME\<close>, never on a key.  Conversely, a step of the ready
  exchange that leaves a host with both flags set does send \<open>START_GAME\<close>: the message
  goes out in a step if and only if the step is one of the ready exchange, the peer is
  the host, both flags are set after it, and the transport takes the message; and the
  game is started in a step if and only if the step is one of the ready exchange of a
  host that leaves both flags set, or the receipt of \<open>START_GAME\<close>.
\<close>

theorem lobby_start_game:
  "(\<exists>c. checkBothReady env l = Inr c \<and>
        Inr (lobby_networkManager c) =
          (if lobby_isReady l \<and> lobby_remoteReady l \<and> isHostPlayer (lobby_networkManager l)
           then send env (lobby_networkManager l) (StartGameMessage (env_now env))
           else Inr (lobby_networkManager l)) \<and>
        lobby_gameStarts c =
          (if lobby_isReady l \<and> lobby_remoteReady l \<and> isHostPlayer (lobby_networkManager l)
           then Suc (lobby_gameStarts l) else lobby_gameStarts l)) \<and>
   (\<exists>l'. lobby_step env l ev = Inr l' \<and>
        ((\<exists>message \<in> set (newly_transmitted l l'). is_StartGame message) \<longrightarrow>
           isHostPlayer (lobby_networkManager l) \<and> lobby_isReady l' \<and> lobby_remoteReady l') \<and>
        (\<not> isHostPlayer (lobby_networkManager l) \<longrightarrow>
           (lobby_gameStarts l' \<noteq> lobby_gameStarts l) = (\<exists>ts. ev = Received (StartGameMessage ts))) \<and>
        (\<exists>message \<in> set (newly_transmitted l l'). is_StartGame message) =
           (runs_checkBothReady l ev \<and> isHostPlayer (lobby_networkManager l) \<and>
            lobby_isReady l' \<and> lobby_remoteReady l' \<and>
            channel_open (lobby_networkManager l) \<and> \<not> env_sendThrows env) \<and>
        lobby_gameStarts l' =
           (if (runs_checkBothReady l ev \<and> isHostPlayer (lobby_networkManager l) \<and>
                lobby_isReady l' \<and> lobby_remoteReady l') \<or>
               (\<exists>ts. ev = Received (StartGameMessage ts))
            then Suc (lobby_gameStarts l) else lobby_gameStarts l))"
proof
  show "\<exists>c. checkBothReady env l = Inr c \<and>
        Inr (lobby_networkManager c) =
          (if lobby_isReady l \<and> lobby_remoteReady l \<and> isHostPlayer (lobby_networkManager l)
           then send env (lobby_networkManager l) (StartGameMessage (env_now env))
           else Inr (lobby_networkManager l)) \<and>
        lobby_gameStarts c =
          (if lobby_isReady l \<and> lobby_remoteReady l \<and> isHostPlayer (lobby_networkManager l)
           then Suc (lobby_gameStarts l) else lobby_gameStarts l)"
    by (simp add: checkBothReady_def send_cases startGame_def)
next
  show "\<exists>l'. lobby_step env l ev = Inr l' \<and>
        ((\<exists>message \<in> set (newly_transmitted l l'). is_StartGame message) \<longrightarrow>
           isHostPlayer (lobby_networkManager l) \<and> lobby_isReady l' \<and> lobby_remoteReady l') \<and>
        (\<not> isHostPlayer (lobby_networkManager l) \<longrightarrow>
           (lobby_gameStarts l' \<noteq> lobby_gameStarts l) = (\<exists>ts. ev = Received (StartGameMessage ts))) \<and>
        (\<exists>message \<in> set (newly_transmitted l l'). is_StartGame message) =
           (runs_checkBothReady l ev \<and> isHostPlayer (lobby_networkManager l) \<and>
            lobby_isReady l' \<and> lobby_remoteReady l' \<and>
            channel_open (lobby_networkManager l) \<and> \<not> env_sendThrows env) \<and>
        lobby_gameStarts l' =
           (if (runs_checkBothReady l ev \<and> isHostPlayer (lobby_networkManager l) \<and>
                lobby_isReady l' \<and> lobby_remoteReady l') \<or>
               (\<exists>ts. ev = Received (StartGameMessage ts))
            then Suc (lobby_gameStarts l) else lobby_gameStarts l)"
  proof (cases ev)
    case (Key key)
    from step_key[of env l key] obtain l' where
      st: "lobby_step env l (Key key) = Inr l'" and
      gs: "lobby_gameStarts l' =
        (if runs_checkBothReady l (Key key) \<and> lobby_remoteReady l \<and>
            nm_isHost (lobby_networkManager l)
         then Suc (lobby_gameStarts l) else lobby_gameStarts l)" and
      nt: "newly_transmitted l l' =
         (if runs_checkBothReady l (Key key) \<and> \<not> env_sendThrows env
          then PlayerReadyMessage
                 (if nm_isHost (lobby_networkManager l) then ''Player 1'' else ''Player 2'')
                 (env_now env) #
               (if lobby_remoteReady l \<and> nm_isHost (lobby_networkManager l)
                then [StartGameMessage (env_now env)] else [])
          else [])" and
      fl: "runs_checkBothReady l (Key key) \<longrightarrow>
        lobby_isReady l' \<and> lobby_remoteReady l' = lobby_remoteReady l \<and>
        channel_open (lobby_networkManager l)"
      by blast
    have sg: "(\<exists>message \<in> set (newly_transmitted l l'). is_StartGame message) =
        (runs_checkBothReady l (Key key) \<and> \<not> env_sendThrows env \<and> lobby_remoteReady l \<and>
         nm_isHost (lobby_networkManager l))"
      unfolding nt by auto
    have a: "(\<exists>message \<in> set (newly_transmitted l l'). is_StartGame message) \<longrightarrow>
           isHostPlayer (lobby_networkManager l) \<and> lobby_isReady l' \<and> lobby_remoteReady l'"
      unfolding sg isHostPlayer_def using fl by blast
    have b: "\<not> isHostPlayer (lobby_networkManager l) \<longrightarrow>
           (lobby_gameStarts l' \<noteq> lobby_gameStarts l) =
           (\<exists>ts. Key key = Received (StartGameMessage ts))"
      unfolding gs isHostPlayer_def by simp
    have c: "(\<exists>message \<in> set (newly_transmitted l l'). is_StartGame message) =
           (runs_checkBothReady l (Key key) \<and> isHostPlayer (lobby_networkManager l) \<and>
            lobby_isReady l' \<and> lobby_remoteReady l' \<and>
            channel_open (lobby_networkManager l) \<and> \<not> env_sendThrows env)"
      unfolding sg isHostPlayer_def using fl by blast
    have d: "lobby_gameStarts l' =
           (if (runs_checkBothReady l (Key key) \<and> isHostPlayer (lobby_networkManager l) \<and>
                lobby_isReady l' \<and> lobby_remoteReady l') \<or>
               (\<exists>ts. Key key = Received (StartGameMessage ts))
            then Suc (lobby_gameStarts l) else lobby_gameStarts l)"
    proof -
      have "(runs_checkBothReady l (Key key) \<and> lobby_remoteReady l \<and>
             nm_isHost (lobby_networkManager l)) =
            ((runs_checkBothReady l (Key key) \<and> isHostPlayer (lobby_networkManager l) \<and>
                lobby_isReady l' \<and> lobby_remoteReady l') \<or>
               (\<exists>ts. Key key = Received (StartGameMessage ts)))"
        unfolding isHostPlayer_def using fl by auto
      then show ?thesis unfolding gs by (simp only:)
    qed
    from st a b c d show ?thesis unfolding Key by blast
  next
    case (Input key)
    from step_input[of env l key] obtain l' where
      st: "lobby_step env l (Input key) = Inr l'" and
      gs: "lobby_gameStarts l' = lobby_gameStarts l" and
      nt: "newly_transmitted l l' = []"
      by blast
    have r: "\<not> runs_checkBothReady l (Input key)" by (simp add: runs_checkBothReady_def)
    from st gs nt r show ?thesis unfolding Input by simp
  next
    case (Received message)
    from step_received[of env l message] obtain l' where
      st: "lobby_step env l (Received message) = Inr l'" and
      ir: "lobby_isReady l' = lobby_isReady l" and
      rr: "lobby_remoteReady l' =
        (lobby_remoteReady l \<or> runs_checkBothReady l (Received message))" and
      gs: "lobby_gameStarts l' =
        (if (\<exists>ts. message = StartGameMessage ts) \<or>
            (runs_checkBothReady l (Received message) \<and> lobby_isReady l \<and>
             nm_isHost (lobby_networkManager l))
         then Suc (lobby_gameStarts l) else lobby_gameStarts l)" and
      nt: "newly_transmitted l l' =
         (if runs_checkBothReady l (Received message) \<and> lobby_isReady l \<and>
             nm_isHost (lobby_networkManager l) \<and>
             channel_open (lobby_networkManager l) \<and> \<not> env_sendThrows env
          then [StartGameMessage (env_now env)] else [])"
      by blast
    have sg: "(\<exists>message' \<in> set (newly_transmitted l l'). is_StartGame message') =
        (runs_checkBothReady l (Received message) \<and> lobby_isReady l \<and>
             nm_isHost (lobby_networkManager l) \<and>
             channel_open (lobby_networkManager l) \<and> \<not> env_sendThrows env)"
      unfolding nt by auto
    have a: "(\<exists>message' \<in> set (newly_transmitted l l'). is_StartGame message') \<longrightarrow>
           isHostPlayer (lobby_networkManager l) \<and> lobby_isReady l' \<and> lobby_remoteReady l'"
      unfolding sg isHostPlayer_def ir rr by blast
    have b: "\<not> isHostPlayer (lobby_networkManager l) \<longrightarrow>
           (lobby_gameStarts l' \<noteq> lobby_gameStarts l) =
           (\<exists>ts. Received message = Received (StartGameMessage ts))"
      unfolding gs isHostPlayer_def by simp
    have c: "(\<exists>message' \<in> set (newly_transmitted l l'). is_StartGame message') =
           (runs_checkBothReady l (Received message) \<and> isHostPlayer (lobby_networkManager l) \<and>
            lobby_isReady l' \<and> lobby_remoteReady l' \<and>
            channel_open (lobby_networkManager l) \<and> \<not> env_sendThrows env)"
      unfolding sg isHostPlayer_def ir rr by blast
    have d: "lobby_gameStarts l' =
           (if (runs_checkBothReady l (Received message) \<and> isHostPlayer (lobby_networkManager l) \<and>
                lobby_isReady l' \<and> lobby_remoteReady l') \<or>
               (\<exists>ts. Received message = Received (StartGameMessage ts))
            then Suc (lobby_gameStarts l) else lobby_gameStarts l)"
    proof -
      have "((\<exists>ts. message = StartGameMessage ts) \<or>
            (runs_checkBothReady l (Received message) \<and> lobby_isReady l \<and>
             nm_isHost (lobby_networkManager l))) =
            ((runs_checkBothReady l (Received message) \<and> isHostPlayer (lobby_networkManager l) \<and>
                lobby_isReady l' \<and> lobby_remoteReady l') \<or>
               (\<exists>ts. Received message = Received (StartGameMessage ts)))"
        unfolding isHostPlayer_def ir rr by auto
      then show ?thesis unfolding gs by (simp only:)
    qed
    from st a b c d show ?thesis unfolding Received by blast
  qed
qed

lemma lower_r: "toLowerCase ''r'' = ''r''"
  by code_simp

lemma guest_nm:
  "lobby_networkManager guest_in_lobby =
     \<lparr>nm_peer = Some \<lparr>peer_id = None\<rparr>,
      nm_connection = Some \<lparr>conn_peer = js_string ''AB12C9'', conn_open = True\<rparr>,
      nm_isHost = False, nm_roomCode = js_string ''AB12C9'', nm_status = Status_connected, nm_latency = 0,
      nm_lastPingTime = 0, nm_pinging = True, nm_transmitted = [], nm_console = []\<rparr>"
  by (simp add: guest_in_lobby_def connection_on_open_def joinRoom_on_open_def joinRoom_def
      NetworkManager_new_def updateStatus_def upper_ab12c9)

lemma host_nm:
  "lobby_networkManager host_local_ready =
     \<lparr>nm_peer = Some \<lparr>peer_id = Some (js_string ''AAAAAA'')\<rparr>,
      nm_connection = Some \<lparr>conn_peer = js_string ''guest'', conn_open = True\<rparr>,
      nm_isHost = True, nm_roomCode = js_string ''AAAAAA'', nm_status = Status_connected, nm_latency = 0,
      nm_lastPingTime = 0, nm_pinging = True, nm_transmitted = [], nm_console = []\<rparr>"
  by (simp add: host_local_ready_def connection_on_open_def
      createRoom_on_connection_def createRoom_def NetworkManager_new_def updateStatus_def
      console_error_def generateRoomCode_zero)

theorem lobby_start_game_witness:
  "\<not> isHostPlayer (lobby_networkManager guest_remote_ready) \<and>
   (\<exists>l'. lobby_step env0 guest_remote_ready (Key ''r'') = Inr l' \<and>
         lobby_isReady l' \<and> lobby_remoteReady l' \<and>
         lobby_gameStarts l' = lobby_gameStarts guest_remote_ready \<and>
         newly_transmitted guest_remote_ready l' = [PlayerReadyMessage ''Player 2'' 1000]) \<and>
   isHostPlayer (lobby_networkManager host_local_ready) \<and>
   (\<exists>l'. lobby_step env0 host_local_ready (Received (PlayerReadyMessage ''Player 2'' 990)) = Inr l' \<and>
         lobby_isReady l' \<and> lobby_remoteReady l' \<and>
         lobby_gameStarts l' = Suc (lobby_gameStarts host_local_ready) \<and>
         newly_transmitted host_local_ready l' = [StartGameMessage 1000]) \<and>
   isHostPlayer (lobby_networkManager host_remote_ready) \<and>
   runs_checkBothReady host_remote_ready (Key ''r'') \<and>
   (\<exists>l'. lobby_step env0 host_remote_ready (Key ''r'') = Inr l' \<and>
         lobby_isReady l' \<and> lobby_remoteReady l' \<and>
         lobby_gameStarts l' = Suc (lobby_gameStarts host_remote_ready) \<and>
         newly_transmitted host_remote_ready l' =
           [PlayerReadyMessage ''Player 1'' 1000, StartGameMessage 1000])"
proof -
  have g: "\<not> isHostPlayer (lobby_networkManager guest_remote_ready)"
    by (simp add: guest_remote_ready_def guest_nm isHostPlayer_def)
  have h: "isHostPlayer (lobby_networkManager host_local_ready)"
    by (simp add: host_nm isHostPlayer_def)
  obtain l1 where l1: "lobby_step env0 guest_remote_ready (Key ''r'') = Inr l1"
    "\<not> isHostPlayer (lobby_networkManager guest_remote_ready) \<longrightarrow>
       (lobby_gameStarts l1 \<noteq> lobby_gameStarts guest_remote_ready) =
       (\<exists>ts. Key ''r'' = Received (StartGameMessage ts))"
    using lobby_start_game[of env0 guest_remote_ready "Key ''r''"] by blast
  have e1: "lobby_step env0 guest_remote_ready (Key ''r'') =
      Inr (guest_remote_ready\<lparr>lobby_isReady := True,
            lobby_networkManager := (lobby_networkManager guest_remote_ready)
               \<lparr>nm_transmitted := [PlayerReadyMessage ''Player 2'' 1000]\<rparr>,
            lobby_status := ''You are ready! Waiting for other player...''\<rparr>)"
    by (simp add: lobby_step_def keydown_def guest_remote_ready_def guest_nm lower_r
        isConnected_def readyKey_def send_cases channel_open_def env0_def isHostPlayer_def
        checkBothReady_def escapeKey_def)
       (simp add: guest_in_lobby_def)
  have p1: "lobby_isReady l1 \<and> lobby_remoteReady l1 \<and>
         lobby_gameStarts l1 = lobby_gameStarts guest_remote_ready \<and>
         newly_transmitted guest_remote_ready l1 = [PlayerReadyMessage ''Player 2'' 1000]"
    using l1 g e1 by (auto simp: newly_transmitted_def guest_remote_ready_def guest_nm)
  obtain l2 where l2: "lobby_step env0 host_local_ready (Received (PlayerReadyMessage ''Player 2'' 990)) = Inr l2"
    using lobby_start_game[of env0 host_local_ready "Received (PlayerReadyMessage ''Player 2'' 990)"] by blast
  have e2: "lobby_step env0 host_local_ready (Received (PlayerReadyMessage ''Player 2'' 990)) =
      Inr (host_local_ready\<lparr>lobby_remoteReady := True, lobby_status := ''Other player is ready!'',
            lobby_networkManager := (lobby_networkManager host_local_ready)
               \<lparr>nm_transmitted := [StartGameMessage 1000]\<rparr>,
            lobby_gameStarts := 1\<rparr>)"
    by (simp add: lobby_step_def onMessage_def host_nm send_cases channel_open_def env0_def
        isHostPlayer_def checkBothReady_def startGame_def)
       (simp add: host_local_ready_def)
  have p2: "lobby_isReady l2 \<and> lobby_remoteReady l2 \<and>
         lobby_gameStarts l2 = Suc (lobby_gameStarts host_local_ready) \<and>
         newly_transmitted host_local_ready l2 = [StartGameMessage 1000]"
    using l2 e2 by (auto simp: newly_transmitted_def host_nm) (simp_all add: host_local_ready_def)
  have nm3: "lobby_networkManager host_remote_ready = lobby_networkManager host_local_ready"
    by (simp add: host_remote_ready_def)
  have h3: "isHostPlayer (lobby_networkManager host_remote_ready)"
    by (simp add: nm3 host_nm isHostPlayer_def)
  have r3: "runs_checkBothReady host_remote_ready (Key ''r'')"
    by (simp add: runs_checkBothReady_def nm3 host_nm isConnected_def lower_r)
       (simp add: host_remote_ready_def host_local_ready_def)
  obtain l3 where l3: "lobby_step env0 host_remote_ready (Key ''r'') = Inr l3"
    using lobby_start_game[of env0 host_remote_ready "Key ''r''"] by blast
  have e3: "lobby_step env0 host_remote_ready (Key ''r'') =
      Inr (host_remote_ready\<lparr>lobby_isReady := True,
            lobby_networkManager := (lobby_networkManager host_local_ready)
               \<lparr>nm_transmitted := [PlayerReadyMessage ''Player 1'' 1000, StartGameMessage 1000]\<rparr>,
            lobby_status := ''You are ready! Waiting for other player...'',
            lobby_gameStarts := 1\<rparr>)"
    by (simp add: lobby_step_def keydown_def nm3 host_nm lower_r
        isConnected_def readyKey_def send_cases channel_open_def env0_def isHostPlayer_def
        checkBothReady_def escapeKey_def startGame_def)
       (simp add: host_remote_ready_def host_local_ready_def)
  have p3: "lobby_isReady l3 \<and> lobby_remoteReady l3 \<and>
         lobby_gameStarts l3 = Suc (lobby_gameStarts host_remote_ready) \<and>
         newly_transmitted host_remote_ready l3 =
           [PlayerReadyMessage ''Player 1'' 1000, StartGameMessage 1000]"
    using l3 e3 by (auto simp: newly_transmitted_def nm3 host_nm)
      (simp_all add: host_remote_ready_def host_local_ready_def)
  from g h l1(1) p1 l2 p2 h3 r3 l3 p3 show ?thesis by blast
qed

section \<open>Properties of the session orchestrator\<close>

text \<open>
  Claim C5: on a received \<open>STATE_UPDATE\<close> the in-game handler of a host changes
  nothing, and the handler of a peer that is not the host applies the snapshot to its
  simulation (where it has one); so in both variants.
\<close>

theorem state_update_applied_by_guest_only:
  "(mgm_isHost m \<longrightarrow> handleNetworkMessage m (StateUpdateMessage st ts) = m) \<and>
   (\<not> mgm_isHost m \<longrightarrow>
      handleNetworkMessage m (StateUpdateMessage st ts) =
        m\<lparr>mgm_gameManager := map_option (\<lambda>gm. applyGameState gm st) (mgm_gameManager m)\<rparr>) \<and>
   (\<not> v2_inLobby m2 \<and> v2_isHost m2 \<longrightarrow>
      handleNetworkMessage_v2 handleMessage shootArrow m2 (StateUpdateMessage st ts) = m2) \<and>
   (\<not> v2_inLobby m2 \<and> \<not> v2_isHost m2 \<longrightarrow>
      handleNetworkMessage_v2 handleMessage shootArrow m2 (StateUpdateMessage st ts) =
        m2\<lparr>v2_gameManager := map_option (\<lambda>gm. applyGameState gm st) (v2_gameManager m2)\<rparr>)"
  by (simp add: handleNetworkMessage_def handleNetworkMessage_v2_def split: option.splits)

theorem state_update_applied_by_guest_only_witness:
  "mgm_isHost host_in_game \<and>
   handleNetworkMessage host_in_game (StateUpdateMessage scenario_B 1000) = host_in_game \<and>
   \<not> mgm_isHost (host_in_game\<lparr>mgm_isHost := False\<rparr>) \<and>
   handleNetworkMessage (host_in_game\<lparr>mgm_isHost := False\<rparr>) (StateUpdateMessage scenario_B 1000) =
     host_in_game\<lparr>mgm_isHost := False, mgm_gameManager := Some (applyGameState guest_shot scenario_B)\<rparr> \<and>
   \<not> v2_inLobby host_in_game_v2 \<and> v2_isHost host_in_game_v2 \<and>
   handleNetworkMessage_v2 (\<lambda>m message. m) (\<lambda>p. p) host_in_game_v2 (StateUpdateMessage scenario_B 1000) =
     host_in_game_v2 \<and>
   handleNetworkMessage_v2 (\<lambda>m message. m) (\<lambda>p. p) (host_in_game_v2\<lparr>v2_isHost := False\<rparr>)
       (StateUpdateMessage scenario_B 1000) =
     host_in_game_v2\<lparr>v2_isHost := False, v2_gameManager := Some (applyGameState guest_shot scenario_B)\<rparr>"
proof -
  have a: "mgm_isHost host_in_game" "\<not> mgm_isHost (host_in_game\<lparr>mgm_isHost := False\<rparr>)"
    "mgm_gameManager host_in_game = Some guest_shot"
    "\<not> v2_inLobby host_in_game_v2" "v2_isHost host_in_game_v2"
    "v2_gameManager host_in_game_v2 = Some guest_shot"
    by (simp_all add: host_in_game_def host_in_game_v2_def)
  from a
    state_update_applied_by_guest_only[of host_in_game scenario_B 1000 host_in_game_v2 "\<lambda>m message. m" "\<lambda>p. p"]
    state_update_applied_by_guest_only[of "host_in_game\<lparr>mgm_isHost := False\<rparr>" scenario_B 1000
      "host_in_game_v2\<lparr>v2_isHost := False\<rparr>" "\<lambda>m message. m" "\<lambda>p. p"]
  show ?thesis by simp
qed

lemma applyInput_scenario_E: "player_movement (applyInput scenario_E p) = LEFT"
  by (simp add: applyInput_def scenario_E_def Let_def)

text \<open>
  Claim C8 (Scenario E): when the host applies the received input
  \<open>{left: true, right: false, shoot: false}\<close> to the guest's seat, the movement of
  seat 1 is \<open>LEFT\<close> whatever it was, and seat 0 is as before; in the first variant the
  input is stored on receipt and applied by \<open>applyInputToPlayer(1, remoteInput)\<close>, in the
  later one it is applied on receipt by \<open>applyGuestInput\<close>.
\<close>

theorem input_left_moves_guest_seat:
  "(mgm_gameManager m = Some gm \<and> 1 < length (gm_players gm) \<longrightarrow>
      (\<exists>gm'. mgm_gameManager
                (applyInputToPlayer 1
                   (mgm_remoteInput (handleNetworkMessage m (InputMessage scenario_E ts)))
                   (handleNetworkMessage m (InputMessage scenario_E ts))) = Some gm' \<and>
             length (gm_players gm') = length (gm_players gm) \<and>
             player_movement (gm_players gm' ! 1) = LEFT \<and>
             gm_players gm' ! 0 = gm_players gm ! 0)) \<and>
   (v2_gameManager m2 = Some gm \<and> 1 < length (gm_players gm) \<and> v2_isHost m2 \<and> \<not> v2_inLobby m2 \<longrightarrow>
      (\<exists>gm'. v2_gameManager
                (handleNetworkMessage_v2 handleMessage shootArrow m2 (InputMessage scenario_E ts)) =
                Some gm' \<and>
             length (gm_players gm') = length (gm_players gm) \<and>
             player_movement (gm_players gm' ! 1) = LEFT \<and>
             gm_players gm' ! 0 = gm_players gm ! 0))"
proof
  show "mgm_gameManager m = Some gm \<and> 1 < length (gm_players gm) \<longrightarrow>
      (\<exists>gm'. mgm_gameManager
                (applyInputToPlayer 1
                   (mgm_remoteInput (handleNetworkMessage m (InputMessage scenario_E ts)))
                   (handleNetworkMessage m (InputMessage scenario_E ts))) = Some gm' \<and>
             length (gm_players gm') = length (gm_players gm) \<and>
             player_movement (gm_players gm' ! 1) = LEFT \<and>
             gm_players gm' ! 0 = gm_players gm ! 0)"
    by (simp add: handleNetworkMessage_def applyInputToPlayer_def seat_def applyInput_scenario_E)
next
  show "v2_gameManager m2 = Some gm \<and> 1 < length (gm_players gm) \<and> v2_isHost m2 \<and> \<not> v2_inLobby m2 \<longrightarrow>
      (\<exists>gm'. v2_gameManager
                (handleNetworkMessage_v2 handleMessage shootArrow m2 (InputMessage scenario_E ts)) =
                Some gm' \<and>
             length (gm_players gm') = length (gm_players gm) \<and>
             player_movement (gm_players gm' ! 1) = LEFT \<and>
             gm_players gm' ! 0 = gm_players gm ! 0)"
    by (simp add: handleNetworkMessage_v2_def applyGuestInput_def scenario_E_def Let_def)
qed

theorem input_left_moves_guest_seat_witness:
  "mgm_gameManager host_in_game = Some guest_shot \<and> 1 < length (gm_players guest_shot) \<and>
   player_movement (gm_players guest_shot ! 1) = STATIONARY \<and>
   (\<exists>gm'. mgm_gameManager
             (applyInputToPlayer 1
                (mgm_remoteInput (handleNetworkMessage host_in_game (InputMessage scenario_E 1000)))
                (handleNetworkMessage host_in_game (InputMessage scenario_E 1000))) = Some gm' \<and>
           map player_movement (gm_players gm') = [STATIONARY, LEFT]) \<and>
   (\<exists>gm'. v2_gameManager
             (handleNetworkMessage_v2 (\<lambda>m message. m) (\<lambda>p. p) host_in_game_v2
                (InputMessage scenario_E 1000)) = Some gm' \<and>
           map player_movement (gm_players gm') = [STATIONARY, LEFT])"
proof -
  have a: "mgm_gameManager host_in_game = Some guest_shot" "1 < length (gm_players guest_shot)"
    "v2_gameManager host_in_game_v2 = Some guest_shot" "v2_isHost host_in_game_v2"
    "\<not> v2_inLobby host_in_game_v2" "length (gm_players guest_shot) = 2"
    "player_movement (gm_players guest_shot ! 0) = STATIONARY"
    "player_movement (gm_players guest_shot ! 1) = STATIONARY"
    by (simp_all add: host_in_game_def host_in_game_v2_def guest_shot_def)
  have two: "\<And>xs :: Player list. length xs = 2 \<Longrightarrow>
      map player_movement xs = [player_movement (xs ! 0), player_movement (xs ! 1)]"
  proof -
    fix xs :: "Player list" assume "length xs = 2"
    then obtain p q where "xs = [p, q]"
      by (metis (no_types, opaque_lifting) One_nat_def Suc_1 length_0_conv length_Suc_conv)
    then show "map player_movement xs = [player_movement (xs ! 0), player_movement (xs ! 1)]"
      by simp
  qed
  note t = input_left_moves_guest_seat[of host_in_game guest_shot 1000 host_in_game_v2
      "\<lambda>m message. m" "\<lambda>p. p"]
  from t a obtain g1 where g1: "mgm_gameManager
             (applyInputToPlayer 1
                (mgm_remoteInput (handleNetworkMessage host_in_game (InputMessage scenario_E 1000)))
                (handleNetworkMessage host_in_game (InputMessage scenario_E 1000))) = Some g1"
      "length (gm_players g1) = 2" "player_movement (gm_players g1 ! 1) = LEFT"
      "gm_players g1 ! 0 = gm_players guest_shot ! 0"
    by auto
  from t a obtain g2 where g2: "v2_gameManager
             (handleNetworkMessage_v2 (\<lambda>m message. m) (\<lambda>p. p) host_in_game_v2
                (InputMessage scenario_E 1000)) = Some g2"
      "length (gm_players g2) = 2" "player_movement (gm_players g2 ! 1) = LEFT"
      "gm_players g2 ! 0 = gm_players guest_shot ! 0"
    by auto
  have m1: "map player_movement (gm_players g1) = [STATIONARY, LEFT]"
    using two[OF g1(2)] g1 a by simp
  have m2: "map player_movement (gm_players g2) = [STATIONARY, LEFT]"
    using two[OF g2(2)] g2 a by simp
  from a g1(1) m1 g2(1) m2 show ?thesis by simp
qed

end
